theory Spec2Isabelle
  imports Main "HOL-Library.AList"
begin

section \<open>Strings and regular-expression character classes\<close>

text \<open>
  A JavaScript string is modelled as a \<^typ>\<open>string\<close>; one \<^typ>\<open>char\<close> stands for one
  code unit. The character classes below are those of the regular expressions in
  \<^verbatim>\<open>lib/utils/index.ts\<close> and of the orchestrator: without the \<^verbatim>\<open>u\<close> flag, \<^verbatim>\<open>\w\<close> is
  \<^verbatim>\<open>[A-Za-z0-9_]\<close> and \<^verbatim>\<open>\d\<close> is \<^verbatim>\<open>[0-9]\<close>.
\<close>

definition is_digit :: "char \<Rightarrow> bool" where
  "is_digit c = (let n = (of_char c :: nat) in 48 \<le> n \<and> n \<le> 57)"

definition is_upper :: "char \<Rightarrow> bool" where
  "is_upper c = (let n = (of_char c :: nat) in 65 \<le> n \<and> n \<le> 90)"

definition is_lower :: "char \<Rightarrow> bool" where
  "is_lower c = (let n = (of_char c :: nat) in 97 \<le> n \<and> n \<le> 122)"

definition is_word :: "char \<Rightarrow> bool" where
  "is_word c = (is_digit c \<or> is_upper c \<or> is_lower c \<or> c = CHR ''_'')"

text \<open>\<^verbatim>\<open>[\w.-]\<close>, the class of both segments of the \<^verbatim>\<open>repo\<close> group (and, written
  \<^verbatim>\<open>[\w-.]\<close>, of a provider name).\<close>

definition is_repo_char :: "char \<Rightarrow> bool" where
  "is_repo_char c = (is_word c \<or> c = CHR ''.'' \<or> c = CHR ''-'')"

text \<open>\<^verbatim>\<open>[\w./@-]\<close>, the class of the \<^verbatim>\<open>ref\<close> group after its \<^verbatim>\<open>#\<close>.\<close>

definition is_ref_char :: "char \<Rightarrow> bool" where
  "is_ref_char c = (is_word c \<or> c = CHR ''.'' \<or> c = CHR ''/'' \<or> c = CHR ''@'' \<or> c = CHR ''-'')"

text \<open>\<^verbatim>\<open>String.prototype.split\<close> with a one-character separator and
  \<^verbatim>\<open>Array.prototype.join\<close>. Splitting the empty string gives one empty piece.\<close>

fun split_on :: "char \<Rightarrow> string \<Rightarrow> string list" where
  "split_on sep [] = [[]]"
| "split_on sep (c # cs) =
     (if c = sep then [] # split_on sep cs
      else (case split_on sep cs of
              [] \<Rightarrow> [[c]]
            | piece # pieces \<Rightarrow> (c # piece) # pieces))"

fun join :: "string \<Rightarrow> string list \<Rightarrow> string" where
  "join sep [] = []"
| "join sep [x] = x"
| "join sep (x # y # ys) = x @ sep @ join sep (y # ys)"

text \<open>\<^verbatim>\<open>String.prototype.startsWith\<close>.\<close>

definition startsWith :: "string \<Rightarrow> string \<Rightarrow> bool" where
  "startsWith s p = (take (length p) s = p)"

section \<open>The URI parser (\<^verbatim>\<open>parseGitURI\<close>)\<close>

text \<open>
  \<^verbatim>\<open>inputRegex = /^(?<repo>[\w.-]+\/[\w.-]+)(?<subdir>[^#]+)?(?<ref>#[\w./@-]+)?/\<close>

  The match is anchored at the start. Every quantifier is greedy, and the character
  after a run is never in the run's class when the run is maximal, so the backtracking
  matcher succeeds with the maximal runs or not at all: the first segment is the longest
  run of \<^verbatim>\<open>[\w.-]\<close>, it must be followed by \<^verbatim>\<open>/\<close> and a second non-empty run; the two optional
  groups after it can always match the empty string. A group that takes no part in the
  match is \<^verbatim>\<open>undefined\<close>, here \<^const>\<open>None\<close>.
\<close>

record groups =
  g_repo :: string
  g_subdir :: "string option"
  g_ref :: "string option"

definition inputRegex :: "string \<Rightarrow> groups option" where
  "inputRegex input =
     (let owner = takeWhile is_repo_char input;
          rest1 = dropWhile is_repo_char input
      in if owner = [] then None
         else (case rest1 of
                 [] \<Rightarrow> None
               | c # rest2 \<Rightarrow>
                   if c \<noteq> CHR ''/'' then None
                   else
                     (let nm = takeWhile is_repo_char rest2;
                          rest3 = dropWhile is_repo_char rest2
                      in if nm = [] then None
                         else
                           (let sd = takeWhile (\<lambda>x. x \<noteq> CHR ''#'') rest3;
                                rest4 = dropWhile (\<lambda>x. x \<noteq> CHR ''#'') rest3;
                                rf = (case rest4 of
                                        [] \<Rightarrow> None
                                      | h # rest5 \<Rightarrow>
                                          (let body = takeWhile is_ref_char rest5
                                           in if body = [] then None else Some (h # body)))
                            in Some \<lparr> g_repo = owner @ [c] @ nm,
                                      g_subdir = (if sd = [] then None else Some sd),
                                      g_ref = rf \<rparr>))))"

record GitInfo =
  repo :: "string option"
  subdir :: string
  ref :: string

text \<open>
  \<^verbatim>\<open>const m = input.match(inputRegex)?.groups || {};\<close>
  \<^verbatim>\<open>return { repo: m.repo, subdir: m.subdir || "/", ref: m.ref ? m.ref.slice(1) : "main" };\<close>

  Without a match every group is \<^verbatim>\<open>undefined\<close>, so \<^verbatim>\<open>repo\<close> is \<^verbatim>\<open>undefined\<close>.
\<close>

definition parseGitURI :: "string \<Rightarrow> GitInfo" where
  "parseGitURI input =
     (case inputRegex input of
        None \<Rightarrow> \<lparr> repo = None, subdir = ''/'', ref = ''main'' \<rparr>
      | Some m \<Rightarrow>
          \<lparr> repo = Some (g_repo m),
            subdir = (case g_subdir m of None \<Rightarrow> ''/'' | Some s \<Rightarrow> if s = [] then ''/'' else s),
            ref = (case g_ref m of None \<Rightarrow> ''main'' | Some r \<Rightarrow> if r = [] then ''main'' else drop 1 r) \<rparr>)"

section \<open>The path rewrite of the extractor (\<^verbatim>\<open>onentry\<close>)\<close>

text \<open>
  \<^verbatim>\<open>const subdir = template.subdir?.replace(/^\//, "") || "";\<close>
\<close>

definition strip_leading_slash :: "string \<Rightarrow> string" where
  "strip_leading_slash s = (case s of [] \<Rightarrow> [] | c # cs \<Rightarrow> if c = CHR ''/'' then cs else s)"

definition requested_subdir :: "string option \<Rightarrow> string" where
  "requested_subdir sd = (case sd of None \<Rightarrow> [] | Some s \<Rightarrow> strip_leading_slash s)"

text \<open>
  \<^verbatim>\<open>entry.path = entry.path.split("/").splice(1).join("/");\<close>
  \<^verbatim>\<open>if (subdir) {\<close>
  \<^verbatim>\<open>  if (entry.path.startsWith(subdir + "/")) { entry.path = entry.path.slice(subdir.length); }\<close>
  \<^verbatim>\<open>  else { entry.path = ""; }\<close>
  \<^verbatim>\<open>}\<close>

  The function returns the new value of \<^verbatim>\<open>entry.path\<close>.
\<close>

definition strip_first_segment :: "string \<Rightarrow> string" where
  "strip_first_segment path = join ''/'' (drop 1 (split_on CHR ''/'' path))"

definition onentry :: "string \<Rightarrow> string \<Rightarrow> string" where
  "onentry sd path =
     (let p = strip_first_segment path
      in if sd \<noteq> [] then
           (if startsWith p (sd @ ''/'') then drop (length sd) p else [])
         else p)"

section \<open>More of the JavaScript string library\<close>

text \<open>\<^verbatim>\<open>String.prototype.toLowerCase\<close> on the code units a \<^typ>\<open>char\<close> can hold: the ASCII
  capitals and the capitals of Latin-1 (\<^verbatim>\<open>0xC0\<close> to \<^verbatim>\<open>0xDE\<close> but for the sign \<^verbatim>\<open>0xD7\<close>).\<close>

definition to_lower_char :: "char \<Rightarrow> char" where
  "to_lower_char c =
     (let n = (of_char c :: nat)
      in if (65 \<le> n \<and> n \<le> 90) \<or> (192 \<le> n \<and> n \<le> 222 \<and> n \<noteq> 215) then char_of (n + 32) else c)"

definition toLowerCase :: "string \<Rightarrow> string" where
  "toLowerCase s = map to_lower_char s"

text \<open>\<^verbatim>\<open>String.prototype.endsWith\<close> and \<^verbatim>\<open>String.prototype.includes\<close>.\<close>

definition endsWith :: "string \<Rightarrow> string \<Rightarrow> bool" where
  "endsWith s p = (length p \<le> length s \<and> drop (length s - length p) s = p)"

fun includes_str :: "string \<Rightarrow> string \<Rightarrow> bool" where
  "includes_str [] p = (p = [])"
| "includes_str (c # cs) p = (startsWith (c # cs) p \<or> includes_str cs p)"

text \<open>\<^verbatim>\<open>String.prototype.replace\<close> with a string pattern: the first occurrence only.\<close>

fun replace_first :: "string \<Rightarrow> string \<Rightarrow> string \<Rightarrow> string" where
  "replace_first [] pat by = (if pat = [] then by else [])"
| "replace_first (c # cs) pat by =
     (if startsWith (c # cs) pat then by @ drop (length pat) (c # cs)
      else c # replace_first cs pat by)"

text \<open>A string is truthy when it is not empty; an absent value is \<^verbatim>\<open>undefined\<close>.
  \<^verbatim>\<open>a || b\<close> on a possibly absent string.\<close>

definition truthy :: "string option \<Rightarrow> bool" where
  "truthy v = (case v of None \<Rightarrow> False | Some s \<Rightarrow> s \<noteq> [])"

definition or_else :: "string option \<Rightarrow> string \<Rightarrow> string" where
  "or_else v d = (case v of None \<Rightarrow> d | Some s \<Rightarrow> if s = [] then d else s)"

section \<open>The world: file store, network and the libraries of the runtime\<close>

text \<open>
  The file store maps a path to what is there. A directory is an entry of its own, and a
  path lies in a directory when it starts with the path of the directory and a slash.
  Paths are the normal absolute paths that \<^verbatim>\<open>resolve\<close> gives. Opening a file for writing
  does not look at its parent. Calls into the file system are modelled where their
  outcome depends on the store (a missing file, a directory in the place of a file);
  permissions, links and a full disk are not part of the model.
\<close>

datatype node = File string | Dir

type_synonym store = "string \<Rightarrow> node option"

text \<open>A JavaScript object used as a header record: its own keys, each once, in the order
  of insertion, with a value that may be \<^verbatim>\<open>undefined\<close>.\<close>

type_synonym jsheaders = "(string \<times> string option) list"

record request =
  rq_method :: string
  rq_url :: string
  rq_headers :: "(string \<times> string) list"
  rq_mode :: "string option"

text \<open>A response; its header names are lower case, as a \<^verbatim>\<open>Headers\<close> object keeps them.
  A body that is \<^verbatim>\<open>null\<close> is \<^const>\<open>None\<close>.\<close>

record response =
  rs_status :: nat
  rs_statusText :: string
  rs_headers :: "(string \<times> string) list"
  rs_body :: "string option"

text \<open>The state a call works on: the store, and the requests sent so far, in order.\<close>

record world =
  files :: store
  requests :: "request list"

text \<open>What \<^verbatim>\<open>JSON.parse\<close> gives for a document expected to have the shape \<^typ>\<open>'a\<close>: a
  syntax error, the value \<^verbatim>\<open>null\<close>, or a value whose properties can be read.\<close>

datatype 'a parsed = SyntaxError | JsonNull | JsonValue 'a

text \<open>The sidecar \<^verbatim>\<open>{ etag?: string }\<close> of a cached tarball.\<close>

record info =
  etag :: "string option"

text \<open>\<^verbatim>\<open>TemplateInfo\<close> of \<^verbatim>\<open>lib/types/index.d.ts\<close>. The field \<^verbatim>\<open>subdir\<close> is \<open>tsubdir\<close>
  here. \<^verbatim>\<open>name\<close> and \<^verbatim>\<open>tar\<close> are optional in the model because a JSON document cast to the
  type may lack them. Further properties of the open record are not modelled.\<close>

record TemplateInfo =
  name :: "string option"
  tar :: "string option"
  version :: "string option"
  tsubdir :: "string option"
  url :: "string option"
  defaultDir :: "string option"
  headers :: "jsheaders option"

text \<open>The errors the code raises, by the place that raises them; a wrapped error keeps
  the error it wraps.\<close>

datatype error =
    FetchFailed string string
  | FetchStatus string nat string
  | DownloadStatus string nat string
  | RegistryStatus string string nat string
  | InvalidTemplateInfo string
  | UnsupportedProvider string
  | ProviderFailed string error
  | ResolveFailed string
  | TarballNotFound string bool
  | DestinationExists string
  | TypeError string
  | JsonSyntaxError
  | NotFound string
  | NotADirectory string
  | IsADirectory string
  | ProviderError string
  | ExtractFailed string
  | BadResource
  | StreamFailed string

text \<open>
  Everything the code calls outside the repository is a parameter: \<^verbatim>\<open>fetch\<close> (a network
  failure is \<^const>\<open>Inl\<close> with its message), \<^verbatim>\<open>Deno.env.get\<close>, \<^verbatim>\<open>homedir\<close>, the functions
  \<^verbatim>\<open>resolve\<close>, \<^verbatim>\<open>dirname\<close> and \<^verbatim>\<open>basename\<close> of \<^verbatim>\<open>@std/path\<close>, \<^verbatim>\<open>new URL\<close> (giving \<^verbatim>\<open>href\<close>
  and \<^verbatim>\<open>pathname\<close>, or nothing for an invalid URL), the JSON codec at the two shapes the
  code reads, and \<^verbatim>\<open>extract\<close> of \<^verbatim>\<open>npm:tar\<close>, which gets the \<^verbatim>\<open>onentry\<close> rewrite, the tarball
  path and the target directory and gives the new store or fails.

  Two more parameters are outcomes of the runtime. The body of a response is the bytes
  that its stream delivers. \<open>pipe_failure\<close> is the error with which \<^verbatim>\<open>pipeTo\<close> rejects after
  it has written these bytes, when the stream breaks behind them; it is \<^const>\<open>None\<close> when
  the stream ends well. \<open>close_piped\<close> is the outcome of \<^verbatim>\<open>file.close()\<close> on a file whose
  writable stream \<^verbatim>\<open>pipeTo\<close> has already closed: \<^const>\<open>None\<close> when the runtime lets the call
  pass, else the error it raises.
\<close>

record env =
  fetch :: "request \<Rightarrow> string + response"
  getenv :: "string \<Rightarrow> string option"
  homedir :: string
  resolve :: "string list \<Rightarrow> string"
  dirname :: "string \<Rightarrow> string"
  basename :: "string \<Rightarrow> string"
  parse_url :: "string \<Rightarrow> (string \<times> string) option"
  parse_info :: "string \<Rightarrow> info parsed"
  stringify_info :: "info \<Rightarrow> string"
  parse_template :: "string \<Rightarrow> TemplateInfo parsed"
  tar_extract :: "(string \<Rightarrow> string) \<Rightarrow> string \<Rightarrow> string \<Rightarrow> store \<Rightarrow> string + store"
  pipe_failure :: "response \<Rightarrow> error option"
  close_piped :: "error option"

section \<open>\<^verbatim>\<open>normalizeHeaders\<close> and \<^verbatim>\<open>sendFetch\<close>\<close>

text \<open>
  \<^verbatim>\<open>for (const [key, value] of Object.entries(headers)) {\<close>
  \<^verbatim>\<open>  if (!value) continue;\<close>
  \<^verbatim>\<open>  normalized[key.toLowerCase()] = value;\<close>
  \<^verbatim>\<open>}\<close>

  \<^verbatim>\<open>Object.entries\<close> lists the keys of an object that are array indices (the decimal
  numerals of the integers below \<^verbatim>\<open>2^32 - 1\<close>) first, in ascending order, and the other
  keys after them in the order of insertion; the object that is built has its keys in
  that order too. Assigning to a key the object has keeps the key's place. The runtime
  is Deno, which removes the accessor \<^verbatim>\<open>__proto__\<close> from \<^verbatim>\<open>Object.prototype\<close>: a key of
  that name is a key like any other.
\<close>

definition digits_value :: "string \<Rightarrow> int" where
  "digits_value k = foldl (\<lambda>n c. 10 * n + (of_char c - 48)) 0 k"

definition is_array_index :: "string \<Rightarrow> bool" where
  "is_array_index k =
     (k \<noteq> [] \<and> list_all is_digit k \<and> (k = ''0'' \<or> take 1 k \<noteq> ''0'')
      \<and> digits_value k < 4294967295)"

definition object_entries :: "(string \<times> 'a) list \<Rightarrow> (string \<times> 'a) list" where
  "object_entries obj =
     sort_key (\<lambda>kv. digits_value (fst kv)) (filter (\<lambda>kv. is_array_index (fst kv)) obj)
     @ filter (\<lambda>kv. \<not> is_array_index (fst kv)) obj"

definition normalizeHeaders :: "jsheaders \<Rightarrow> (string \<times> string) list" where
  "normalizeHeaders hs =
     object_entries
       (foldl (\<lambda>normalized (key, val).
                 case val of
                   None \<Rightarrow> normalized
                 | Some v \<Rightarrow> if v = [] then normalized
                             else AList.update (toLowerCase key) v normalized)
              [] (object_entries hs))"

record fetch_options =
  fo_method :: "string option"
  fo_headers :: "jsheaders option"
  fo_validateStatus :: bool

text \<open>The request \<^verbatim>\<open>sendFetch\<close> hands to \<^verbatim>\<open>fetch\<close>: the method (\<^verbatim>\<open>GET\<close> when none is
  given), the headers normalised, and the mode taken from a truthy \<^verbatim>\<open>sec-fetch-mode\<close>
  header.\<close>

definition make_request :: "string \<Rightarrow> fetch_options \<Rightarrow> request" where
  "make_request u opts =
     (let hs = (case fo_headers opts of None \<Rightarrow> [] | Some h \<Rightarrow> h)
      in \<lparr> rq_method = (case fo_method opts of None \<Rightarrow> ''GET'' | Some m \<Rightarrow> m),
           rq_url = u,
           rq_headers = normalizeHeaders hs,
           rq_mode = (case map_of hs ''sec-fetch-mode'' of
                        Some (Some m) \<Rightarrow> if m = [] then None else Some m
                      | _ \<Rightarrow> None) \<rparr>)"

text \<open>
  \<^verbatim>\<open>const res = await fetch(url, {...}).catch((error) => { throw new Error(`Failed to download ...`) });\<close>
  \<^verbatim>\<open>if (options.validateStatus && res.status >= 400) { throw new Error(`Failed to fetch ...`); }\<close>
  \<^verbatim>\<open>return res;\<close>
\<close>

definition sendFetch :: "env \<Rightarrow> string \<Rightarrow> fetch_options \<Rightarrow> world \<Rightarrow> (error + response) \<times> world" where
  "sendFetch e u opts w =
     (let req = make_request u opts;
          w' = w\<lparr> requests := requests w @ [req] \<rparr>
      in case fetch e req of
           Inl msg \<Rightarrow> (Inl (FetchFailed u msg), w')
         | Inr res \<Rightarrow>
             if fo_validateStatus opts \<and> 400 \<le> rs_status res
             then (Inl (FetchStatus u (rs_status res) (rs_statusText res)), w')
             else (Inr res, w'))"

text \<open>\<^verbatim>\<open>response.headers.get(name)\<close>: \<^verbatim>\<open>null\<close> when the header is absent.\<close>

definition header_get :: "response \<Rightarrow> string \<Rightarrow> string option" where
  "header_get res n = map_of (rs_headers res) (toLowerCase n)"

section \<open>The cache-aware downloader (\<^verbatim>\<open>download\<close>)\<close>

text \<open>
  \<^verbatim>\<open>try { info = JSON.parse(await Deno.readTextFile(infoPath)); } catch { }\<close>

  A sidecar that is missing, is a directory or does not parse leaves \<^verbatim>\<open>info = {}\<close>.
  The result \<^const>\<open>None\<close> is a sidecar that parses to the value \<^verbatim>\<open>null\<close>.
\<close>

definition read_info :: "env \<Rightarrow> store \<Rightarrow> string \<Rightarrow> info option" where
  "read_info e st infoPath =
     (case st infoPath of
        Some (File data) \<Rightarrow>
          (case parse_info e data of
             SyntaxError \<Rightarrow> Some \<lparr> etag = None \<rparr>
           | JsonNull \<Rightarrow> None
           | JsonValue i \<Rightarrow> Some i)
      | _ \<Rightarrow> Some \<lparr> etag = None \<rparr>)"

text \<open>The value of \<^verbatim>\<open>headResponse?.headers.get("etag")\<close>: \<^verbatim>\<open>undefined\<close> when the \<^verbatim>\<open>HEAD\<close>
  request failed, \<^verbatim>\<open>null\<close> when the response has no such header, else the header.\<close>

datatype jsval = Undefined | Null | Str string

definition head_etag :: "error + response \<Rightarrow> jsval" where
  "head_etag headResponse =
     (case headResponse of
        Inl _ \<Rightarrow> Undefined
      | Inr res \<Rightarrow> (case header_get res ''etag'' of None \<Rightarrow> Null | Some t \<Rightarrow> Str t))"

text \<open>\<^verbatim>\<open>info.etag === etag\<close>, where \<^verbatim>\<open>info.etag\<close> is a string or \<^verbatim>\<open>undefined\<close>.\<close>

definition same_etag :: "string option \<Rightarrow> jsval \<Rightarrow> bool" where
  "same_etag stored fresh =
     (case stored of
        None \<Rightarrow> fresh = Undefined
      | Some t \<Rightarrow> fresh = Str t)"

text \<open>\<^verbatim>\<open>existsSync\<close> and \<^verbatim>\<open>exists\<close> of \<^verbatim>\<open>@std/fs\<close>: a file or a directory is there.\<close>

definition exists_path :: "store \<Rightarrow> string \<Rightarrow> bool" where
  "exists_path st p = (st p \<noteq> None)"

text \<open>
  \<^verbatim>\<open>const file = await Deno.open(filePath, { write: true, create: true });\<close>
  \<^verbatim>\<open>await response.body?.pipeTo(file.writable);\<close>

  The file is created when it is missing and is not truncated when it is there; the
  bytes that the body delivers are written from offset 0 over what the file holds. A
  \<^verbatim>\<open>null\<close> body writes nothing.
\<close>

definition pipe_over :: "string option \<Rightarrow> string \<Rightarrow> string" where
  "pipe_over body old = (case body of None \<Rightarrow> old | Some b \<Rightarrow> b @ drop (length b) old)"

definition open_and_pipe :: "store \<Rightarrow> string \<Rightarrow> string option \<Rightarrow> error + store" where
  "open_and_pipe st filePath body =
     (case st filePath of
        Some Dir \<Rightarrow> Inl (IsADirectory filePath)
      | Some (File old) \<Rightarrow> Inr (st(filePath \<mapsto> File (pipe_over body old)))
      | None \<Rightarrow> Inr (st(filePath \<mapsto> File (pipe_over body []))))"

text \<open>\<^verbatim>\<open>Deno.writeTextFile(path, text)\<close>: the file is created or replaced.\<close>

definition writeTextFile :: "store \<Rightarrow> string \<Rightarrow> string \<Rightarrow> error + store" where
  "writeTextFile st p text =
     (case st p of
        Some Dir \<Rightarrow> Inl (IsADirectory p)
      | _ \<Rightarrow> Inr (st(p \<mapsto> File text)))"

text \<open>
  The second half of \<^verbatim>\<open>download\<close>, from \<^verbatim>\<open>if (typeof etag === "string") info.etag = etag;\<close>
  on: the \<^verbatim>\<open>GET\<close>, the status check, the write of the body, \<^verbatim>\<open>file.close()\<close> and the write
  of the sidecar. \<^verbatim>\<open>Deno.open\<close> has created the file before the first byte is piped, so a
  \<^verbatim>\<open>pipeTo\<close> that rejects leaves the file with the bytes written so far. When \<^verbatim>\<open>pipeTo\<close> has
  gone through, it has closed the stream of the file before \<^verbatim>\<open>file.close()\<close> is called.
\<close>

definition fetch_body :: "env \<Rightarrow> string \<Rightarrow> string \<Rightarrow> jsheaders option \<Rightarrow> info \<Rightarrow> jsval \<Rightarrow> world
    \<Rightarrow> (error + unit) \<times> world" where
  "fetch_body e u filePath hs i fresh w1 =
     (let i' = (case fresh of Str t \<Rightarrow> i\<lparr> etag := Some t \<rparr> | _ \<Rightarrow> i)
      in case sendFetch e u \<lparr> fo_method = None, fo_headers = hs, fo_validateStatus = False \<rparr> w1 of
           (Inl err, w2) \<Rightarrow> (Inl err, w2)
         | (Inr res, w2) \<Rightarrow>
             if 400 \<le> rs_status res
             then (Inl (DownloadStatus u (rs_status res) (rs_statusText res)), w2)
             else (case open_and_pipe (files w2) filePath (rs_body res) of
                     Inl err \<Rightarrow> (Inl err, w2)
                   | Inr st3 \<Rightarrow>
                       (case (if rs_body res = None then None else pipe_failure e res) of
                          Some err \<Rightarrow> (Inl err, w2\<lparr> files := st3 \<rparr>)
                        | None \<Rightarrow>
                            (case (if rs_body res = None then None else close_piped e) of
                               Some err \<Rightarrow> (Inl err, w2\<lparr> files := st3 \<rparr>)
                             | None \<Rightarrow>
                                 (case writeTextFile st3 (filePath @ ''.json'')
                                         (stringify_info e i') of
                                    Inl err \<Rightarrow> (Inl err, w2\<lparr> files := st3 \<rparr>)
                                  | Inr st4 \<Rightarrow> (Inr (), w2\<lparr> files := st4 \<rparr>))))))"

text \<open>
  \<^verbatim>\<open>download(url, filePath, options)\<close>. The sidecar is read, the \<^verbatim>\<open>HEAD\<close> request is sent
  (its failure is caught), and \<^verbatim>\<open>if (info.etag === etag && existsSync(filePath)) return;\<close>
  decides whether the body is fetched. Reading \<^verbatim>\<open>info.etag\<close> of a sidecar that holds
  \<^verbatim>\<open>null\<close> raises a \<^verbatim>\<open>TypeError\<close>, after the \<^verbatim>\<open>HEAD\<close> request.
\<close>

definition download :: "env \<Rightarrow> string \<Rightarrow> string \<Rightarrow> jsheaders option \<Rightarrow> world \<Rightarrow> (error + unit) \<times> world" where
  "download e u filePath hs w =
     (case sendFetch e u \<lparr> fo_method = Some ''HEAD'', fo_headers = hs, fo_validateStatus = False \<rparr> w of
        (headResponse, w1) \<Rightarrow>
          (case read_info e (files w) (filePath @ ''.json'') of
             None \<Rightarrow> (Inl (TypeError ''Cannot read properties of null (reading etag)''), w1)
           | Some i \<Rightarrow>
               if same_etag (etag i) (head_etag headResponse) \<and> exists_path (files w1) filePath
               then (Inr (), w1)
               else fetch_body e u filePath hs i (head_etag headResponse) w1))"

text \<open>The two requests of \<^verbatim>\<open>download\<close>.\<close>

definition head_request :: "string \<Rightarrow> jsheaders option \<Rightarrow> request" where
  "head_request u hs =
     make_request u \<lparr> fo_method = Some ''HEAD'', fo_headers = hs, fo_validateStatus = False \<rparr>"

definition get_request :: "string \<Rightarrow> jsheaders option \<Rightarrow> request" where
  "get_request u hs =
     make_request u \<lparr> fo_method = None, fo_headers = hs, fo_validateStatus = False \<rparr>"

section \<open>Providers (\<^verbatim>\<open>lib/providers.ts\<close>, \<^verbatim>\<open>lib/registry.ts\<close>)\<close>

text \<open>A provider gets the provider-local source and the \<^verbatim>\<open>auth\<close> option, may use the
  network, and gives a template, \<^verbatim>\<open>null\<close> (\<^const>\<open>None\<close>) or an error.\<close>

type_synonym provider = "string \<Rightarrow> string option \<Rightarrow> world \<Rightarrow> (error + TemplateInfo option) \<times> world"

text \<open>\<^verbatim>\<open>options.auth ? `Bearer ${options.auth}` : undefined\<close>\<close>

definition bearer :: "string option \<Rightarrow> string option" where
  "bearer a = (case a of None \<Rightarrow> None | Some t \<Rightarrow> if t = [] then None else Some (''Bearer '' @ t))"

text \<open>
  The end of the JSON-fetch path, the same lines in \<^verbatim>\<open>_httpJSON\<close> and in the registry
  provider:

  \<^verbatim>\<open>const info = (await result.json()) as TemplateInfo;\<close>
  \<^verbatim>\<open>if (!info.tar || !info.name) { throw new Error(`Invalid template info from ${url}. ...`); }\<close>
  \<^verbatim>\<open>return info;\<close>

  A body that is not JSON makes \<^verbatim>\<open>json()\<close> fail, and reading \<^verbatim>\<open>tar\<close> of \<^verbatim>\<open>null\<close> is a
  \<^verbatim>\<open>TypeError\<close>.
\<close>

definition checked_info :: "env \<Rightarrow> string \<Rightarrow> response \<Rightarrow> error + TemplateInfo option" where
  "checked_info e u res =
     (case parse_template e (case rs_body res of None \<Rightarrow> [] | Some b \<Rightarrow> b) of
        SyntaxError \<Rightarrow> Inl JsonSyntaxError
      | JsonNull \<Rightarrow> Inl (TypeError ''Cannot read properties of null (reading tar)'')
      | JsonValue i \<Rightarrow>
          if \<not> truthy (tar i) \<or> \<not> truthy (name i) then Inl (InvalidTemplateInfo u)
          else Inr (Some i))"

text \<open>
  \<^verbatim>\<open>const _httpJSON: TemplateProvider = async (input, options) => {\<close>
  \<^verbatim>\<open>  const result = await sendFetch(input, { validateStatus: true, headers: { authorization: ... } });\<close>
  \<^verbatim>\<open>  ...\<close>
\<close>

definition httpJSON :: "env \<Rightarrow> provider" where
  "httpJSON e input a w =
     (case sendFetch e input
             \<lparr> fo_method = None, fo_headers = Some [(''authorization'', bearer a)],
               fo_validateStatus = True \<rparr> w of
        (Inl err, w1) \<Rightarrow> (Inl err, w1)
      | (Inr res, w1) \<Rightarrow> (checked_info e input res, w1))"

text \<open>
  \<^verbatim>\<open>registryProvider(registryEndpoint = DEFAULT_REGISTRY, options = {})\<close> gives a provider
  that reads only its input; the \<^verbatim>\<open>auth\<close> it sends is the one it was built with.
\<close>

definition DEFAULT_REGISTRY :: string where
  "DEFAULT_REGISTRY = ''https://raw.githubusercontent.com/snap-repo/main/templates''"

definition registryProvider :: "env \<Rightarrow> string option \<Rightarrow> string option \<Rightarrow> provider" where
  "registryProvider e registryEndpoint built_auth input a w =
     (let registryURL =
            (case registryEndpoint of None \<Rightarrow> DEFAULT_REGISTRY | Some ep \<Rightarrow> ep)
              @ ''/'' @ input @ ''.json''
      in case sendFetch e registryURL
                \<lparr> fo_method = None, fo_headers = Some [(''authorization'', bearer built_auth)],
                  fo_validateStatus = False \<rparr> w of
           (Inl err, w1) \<Rightarrow> (Inl err, w1)
         | (Inr res, w1) \<Rightarrow>
             if 400 \<le> rs_status res
             then (Inl (RegistryStatus input registryURL (rs_status res) (rs_statusText res)), w1)
             else (checked_info e registryURL res, w1))"

text \<open>
  The first group of \<^verbatim>\<open>/filename="?(.+)"?/\<close> at the leftmost place it matches. \<^verbatim>\<open>.\<close> stops at
  a line terminator; the greedy \<^verbatim>\<open>.+\<close> runs to the end of the line, so the closing quote
  stays in the group. When nothing follows an opening quote, the quote itself is the
  group.
\<close>

definition is_line_terminator :: "char \<Rightarrow> bool" where
  "is_line_terminator c = (c = CHR 0x0A \<or> c = CHR 0x0D)"

fun filename_match :: "string \<Rightarrow> string option" where
  "filename_match [] = None"
| "filename_match (c # cs) =
     (if startsWith (c # cs) ''filename='' then
        (let r = drop 9 (c # cs);
             quoted = (case r of
                         [] \<Rightarrow> []
                       | q # r' \<Rightarrow> if q = CHR 0x22
                                   then takeWhile (\<lambda>x. \<not> is_line_terminator x) r' else []);
             plain = takeWhile (\<lambda>x. \<not> is_line_terminator x) r
         in if quoted \<noteq> [] then Some quoted
            else if plain \<noteq> [] then Some plain
            else filename_match cs)
      else filename_match cs)"

text \<open>The template the HTTP provider gives for a direct tarball URL.\<close>

definition direct_template :: "string \<Rightarrow> string \<Rightarrow> string option \<Rightarrow> TemplateInfo" where
  "direct_template nm href a =
     \<lparr> name = Some (nm @ ''-'' @ take 8 href),
       tar = Some href,
       version = Some [],
       tsubdir = Some [],
       url = None,
       defaultDir = Some nm,
       headers = Some [(''Authorization'', bearer a)] \<rparr>"

text \<open>
  \<^verbatim>\<open>export const http: TemplateProvider = async (input, options) => { ... }\<close>

  An input that ends in \<^verbatim>\<open>.json\<close> goes to \<^verbatim>\<open>_httpJSON\<close>, whose failure is the provider's.
  Otherwise the URL is parsed (an invalid URL is a \<^verbatim>\<open>TypeError\<close>) and a \<^verbatim>\<open>HEAD\<close> request is
  sent inside \<^verbatim>\<open>try\<close>. The call \<^verbatim>\<open>return (await _httpJSON(input, options))\<close> for a JSON content
  type stands inside the same \<^verbatim>\<open>try\<close>: when it fails, the \<^verbatim>\<open>catch\<close> takes the error and the
  function goes on to the \<^verbatim>\<open>return\<close> of the direct template.
\<close>

definition http :: "env \<Rightarrow> provider" where
  "http e input a w =
     (if endsWith input ''.json'' then httpJSON e input a w
      else
        (case parse_url e input of
           None \<Rightarrow> (Inl (TypeError ''Invalid URL''), w)
         | Some (href, pathname) \<Rightarrow>
             (case sendFetch e href
                     \<lparr> fo_method = Some ''HEAD'',
                       fo_headers = Some [(''authorization'', bearer a)],
                       fo_validateStatus = True \<rparr> w of
                (Inl err, w1) \<Rightarrow> (Inr (Some (direct_template (basename e pathname) href a)), w1)
              | (Inr head, w1) \<Rightarrow>
                  if includes_str (or_else (header_get head ''content-type'') []) ''application/json''
                  then
                    (case httpJSON e input a w1 of
                       (Inl err, w2) \<Rightarrow>
                         (Inr (Some (direct_template (basename e pathname) href a)), w2)
                     | (Inr t, w2) \<Rightarrow> (Inr t, w2))
                  else
                    (let filename =
                           (case header_get head ''content-disposition'' of
                              None \<Rightarrow> None
                            | Some cd \<Rightarrow> filename_match cd);
                         nm = (case filename of
                                 None \<Rightarrow> basename e pathname
                               | Some f \<Rightarrow>
                                   if f = [] then basename e pathname
                                   else (case split_on CHR ''.'' f of [] \<Rightarrow> [] | x # _ \<Rightarrow> x))
                     in (Inr (Some (direct_template nm href a)), w1)))))"

text \<open>
  The git hosting providers. \<^verbatim>\<open>parsed.repo.replace("/", "-")\<close> is a \<^verbatim>\<open>TypeError\<close> when the
  input did not match and \<^verbatim>\<open>repo\<close> is \<^verbatim>\<open>undefined\<close>.
\<close>

definition github :: "env \<Rightarrow> provider" where
  "github e input a w =
     (let parsed = parseGitURI input;
          githubAPIURL = or_else (getenv e ''SNAP_REPO_GITHUB_URL'') ''https://api.github.com''
      in case repo parsed of
           None \<Rightarrow> (Inl (TypeError ''Cannot read properties of undefined (reading replace)''), w)
         | Some r \<Rightarrow>
             (Inr (Some
                \<lparr> name = Some (replace_first r ''/'' ''-''),
                  tar = Some (githubAPIURL @ ''/repos/'' @ r @ ''/tarball/'' @ ref parsed),
                  version = Some (ref parsed),
                  tsubdir = Some (subdir parsed),
                  url = Some (replace_first githubAPIURL ''api.github.com'' ''github.com''
                              @ ''/'' @ r @ ''/tree/'' @ ref parsed @ subdir parsed),
                  defaultDir = None,
                  headers = Some [(''Authorization'', bearer a),
                                  (''Accept'', Some ''application/vnd.github+json''),
                                  (''X-GitHub-Api-Version'', Some ''2022-11-28'')] \<rparr>), w))"

definition gitlab :: "env \<Rightarrow> provider" where
  "gitlab e input a w =
     (let parsed = parseGitURI input;
          gitlab_url = or_else (getenv e ''SNAP_REPO_GITLAB_URL'') ''https://gitlab.com''
      in case repo parsed of
           None \<Rightarrow> (Inl (TypeError ''Cannot read properties of undefined (reading replace)''), w)
         | Some r \<Rightarrow>
             (Inr (Some
                \<lparr> name = Some (replace_first r ''/'' ''-''),
                  tar = Some (gitlab_url @ ''/'' @ r @ ''/-/archive/'' @ ref parsed @ ''.tar.gz''),
                  version = Some (ref parsed),
                  tsubdir = Some (subdir parsed),
                  url = Some (gitlab_url @ ''/'' @ r @ ''/tree/'' @ ref parsed @ subdir parsed),
                  defaultDir = None,
                  headers = Some [(''authorization'', bearer a),
                                  (''sec-fetch-mode'', Some ''same-origin'')] \<rparr>), w))"

definition bitbucket :: "env \<Rightarrow> provider" where
  "bitbucket e input a w =
     (let parsed = parseGitURI input
      in case repo parsed of
           None \<Rightarrow> (Inl (TypeError ''Cannot read properties of undefined (reading replace)''), w)
         | Some r \<Rightarrow>
             (Inr (Some
                \<lparr> name = Some (replace_first r ''/'' ''-''),
                  tar = Some (''https://bitbucket.org/'' @ r @ ''/get/'' @ ref parsed @ ''.tar.gz''),
                  version = Some (ref parsed),
                  tsubdir = Some (subdir parsed),
                  url = Some (''https://bitbucket.com/'' @ r @ ''/src/'' @ ref parsed
                              @ subdir parsed),
                  defaultDir = None,
                  headers = Some [(''authorization'', bearer a)] \<rparr>), w))"

definition sourcehut :: "env \<Rightarrow> provider" where
  "sourcehut e input a w =
     (let parsed = parseGitURI input
      in case repo parsed of
           None \<Rightarrow> (Inl (TypeError ''Cannot read properties of undefined (reading replace)''), w)
         | Some r \<Rightarrow>
             (Inr (Some
                \<lparr> name = Some (replace_first r ''/'' ''-''),
                  tar = Some (''https://git.sr.ht/~'' @ r @ ''/archive/'' @ ref parsed
                              @ ''.tar.gz''),
                  version = Some (ref parsed),
                  tsubdir = Some (subdir parsed),
                  url = Some (''https://git.sr.ht/~'' @ r @ ''/tree/'' @ ref parsed @ ''/item''
                              @ subdir parsed),
                  defaultDir = None,
                  headers = Some [(''authorization'', bearer a)] \<rparr>), w))"

text \<open>The own keys of the table \<^verbatim>\<open>providers\<close>.\<close>

definition providers :: "env \<Rightarrow> string \<Rightarrow> provider option" where
  "providers e pn =
     (if pn = ''http'' then Some (http e)
      else if pn = ''https'' then Some (http e)
      else if pn = ''github'' then Some (github e)
      else if pn = ''gh'' then Some (github e)
      else if pn = ''gitlab'' then Some (gitlab e)
      else if pn = ''bitbucket'' then Some (bitbucket e)
      else if pn = ''sourcehut'' then Some (sourcehut e)
      else None)"

text \<open>
  The table is an object literal, and so is \<^verbatim>\<open>options.providers\<close>: a lookup by a name that
  is no own key finds what \<^verbatim>\<open>Object.prototype\<close> has under that name. These are built-in
  functions, and the orchestrator calls what it has found as \<^verbatim>\<open>provider(source, { auth })\<close>,
  with no \<^verbatim>\<open>this\<close>:

  \<^item> \<^verbatim>\<open>constructor\<close> is \<^verbatim>\<open>Object\<close>, which wraps the source string in an object: a template
    with none of the properties that are read;
  \<^item> \<^verbatim>\<open>toString\<close> gives the string \<^verbatim>\<open>[object Undefined]\<close>, on which a property cannot be
    set;
  \<^item> \<^verbatim>\<open>isPrototypeOf\<close> gives \<^verbatim>\<open>false\<close> for an argument that is no object;
  \<^item> the others raise a \<^verbatim>\<open>TypeError\<close>, having no object to work on.

  The accessor \<^verbatim>\<open>__proto__\<close> is not among them in Deno.
\<close>

datatype inherited = ObjectConstructor | ObjectToString | ObjectIsPrototypeOf | ObjectThrows

definition object_prototype :: "string \<Rightarrow> inherited option" where
  "object_prototype k =
     (if k = ''constructor'' then Some ObjectConstructor
      else if k = ''toString'' then Some ObjectToString
      else if k = ''isPrototypeOf'' then Some ObjectIsPrototypeOf
      else if k = ''hasOwnProperty'' \<or> k = ''propertyIsEnumerable'' \<or> k = ''toLocaleString''
              \<or> k = ''valueOf'' \<or> k = ''__defineGetter__'' \<or> k = ''__defineSetter__''
              \<or> k = ''__lookupGetter__'' \<or> k = ''__lookupSetter__''
        then Some ObjectThrows
      else None)"

section \<open>The orchestrator (\<^verbatim>\<open>downloadTemplate\<close>)\<close>

text \<open>
  A provider the caller passes in \<^verbatim>\<open>options.providers\<close>: a function of the caller's own,
  modelled without effects on the store or the network, or one built by
  \<^verbatim>\<open>registryProvider(endpoint, { auth })\<close>.
\<close>

datatype custom_provider =
    Custom "string \<Rightarrow> string option \<Rightarrow> error + TemplateInfo option"
  | Registry "string option" "string option"

text \<open>The values of the two options that the code merges with defaults. Each of them can
  be given with the value \<^verbatim>\<open>undefined\<close>, which is not the same as leaving it out.\<close>

datatype registry_option = RegistryUndefined | RegistryFalse | RegistryURL string

datatype auth_option = AuthUndefined | AuthToken string

text \<open>\<^verbatim>\<open>DownloadTemplateOptions\<close>; an option that is absent is \<^const>\<open>None\<close> (\<^const>\<open>False\<close> for a
  flag), and so is an option that is \<^verbatim>\<open>undefined\<close> when it is not one of the two above.
  \<^verbatim>\<open>dir\<close> is \<open>opt_dir\<close> and \<^verbatim>\<open>providers\<close> is \<open>custom_providers\<close>, the own keys of that object,
  here; \<^verbatim>\<open>install\<close> and \<^verbatim>\<open>silent\<close> are never read.\<close>

record DownloadTemplateOptions =
  provider :: "string option"
  force :: bool
  forceClean :: bool
  offline :: bool
  preferOffline :: bool
  custom_providers :: "string \<Rightarrow> custom_provider option"
  opt_dir :: "string option"
  registry :: "registry_option option"
  cwd :: "string option"
  auth :: "auth_option option"

text \<open>\<^verbatim>\<open>DownloadTemplateResult\<close>: \<^verbatim>\<open>{ ...template, source, dir: extractPath }\<close>.\<close>

record DownloadTemplateResult =
  template :: TemplateInfo
  source :: string
  dir :: string

text \<open>
  \<^verbatim>\<open>options = { registry: Deno.env.get("SNAP_REPO_REGISTRY"), auth: Deno.env.get("SNAP_REPO_AUTH"), ...options };\<close>

  The spread copies every property that \<^verbatim>\<open>options\<close> has, also one whose value is
  \<^verbatim>\<open>undefined\<close>: only a property that is absent leaves the value of the environment in
  place. After the merge both properties are there.
\<close>

definition merge_options :: "env \<Rightarrow> DownloadTemplateOptions \<Rightarrow> DownloadTemplateOptions" where
  "merge_options e options =
     options\<lparr> registry := (case registry options of
                              None \<Rightarrow> (case getenv e ''SNAP_REPO_REGISTRY'' of
                                         None \<Rightarrow> Some RegistryUndefined
                                       | Some u \<Rightarrow> Some (RegistryURL u))
                            | Some r \<Rightarrow> Some r),
              auth := (case auth options of
                         None \<Rightarrow> (case getenv e ''SNAP_REPO_AUTH'' of
                                    None \<Rightarrow> Some AuthUndefined
                                  | Some a \<Rightarrow> Some (AuthToken a))
                       | Some a \<Rightarrow> Some a) \<rparr>"

text \<open>The value of \<^verbatim>\<open>options.auth\<close>: a string or \<^verbatim>\<open>undefined\<close>.\<close>

definition auth_token :: "DownloadTemplateOptions \<Rightarrow> string option" where
  "auth_token options = (case auth options of Some (AuthToken a) \<Rightarrow> Some a | _ \<Rightarrow> None)"

text \<open>
  \<^verbatim>\<open>const registry = options.registry === false ? undefined\<close>
  \<^verbatim>\<open>  : registryProvider(options.registry, { auth: options.auth });\<close>

  \<open>has_registry\<close> is the truth value of \<^verbatim>\<open>registry\<close>, \<open>registry_of\<close> the provider itself.
\<close>

definition has_registry :: "DownloadTemplateOptions \<Rightarrow> bool" where
  "has_registry options = (registry options \<noteq> Some RegistryFalse)"

definition registry_of :: "env \<Rightarrow> DownloadTemplateOptions \<Rightarrow> provider option" where
  "registry_of e options =
     (case registry options of
        Some RegistryFalse \<Rightarrow> None
      | Some (RegistryURL ep) \<Rightarrow> Some (registryProvider e (Some ep) (auth_token options))
      | _ \<Rightarrow> Some (registryProvider e None (auth_token options)))"

text \<open>
  \<^verbatim>\<open>const sourceProtoRe = /^([\w-.]+):/;\<close>

  The whole match and the first group: the longest run of \<^verbatim>\<open>[\w-.]\<close> at the start, when it
  is not empty and a colon follows it.
\<close>

definition sourceProtoRe :: "string \<Rightarrow> (string \<times> string) option" where
  "sourceProtoRe input =
     (let p = takeWhile is_repo_char input
      in if p = [] then None
         else (case dropWhile is_repo_char input of
                 [] \<Rightarrow> None
               | c # _ \<Rightarrow> if c = CHR '':'' then Some (p @ [c], p) else None))"

text \<open>
  \<^verbatim>\<open>let providerName = options.provider || (registry ? "registry" : "github");\<close>
  \<^verbatim>\<open>let source = input;\<close>
  \<^verbatim>\<open>const sourceProvierMatch = input.match(sourceProtoRe);\<close>
  \<^verbatim>\<open>if (sourceProvierMatch) {\<close>
  \<^verbatim>\<open>  providerName = sourceProvierMatch[1];\<close>
  \<^verbatim>\<open>  source = input.slice(sourceProvierMatch[0].length);\<close>
  \<^verbatim>\<open>  if (providerName === "http" || providerName === "https") { source = input; }\<close>
  \<^verbatim>\<open>}\<close>
\<close>

definition provider_and_source :: "string \<Rightarrow> DownloadTemplateOptions \<Rightarrow> string \<times> string" where
  "provider_and_source input options =
     (case sourceProtoRe input of
        None \<Rightarrow>
          (or_else (provider options)
             (if has_registry options then ''registry'' else ''github''),
           input)
      | Some (whole, providerName) \<Rightarrow>
          (providerName,
           if providerName = ''http'' \<or> providerName = ''https'' then input
           else drop (length whole) input))"

definition run_custom :: "env \<Rightarrow> custom_provider \<Rightarrow> provider" where
  "run_custom e c =
     (case c of
        Custom f \<Rightarrow> (\<lambda>src a w. (f src a, w))
      | Registry ep built_auth \<Rightarrow> registryProvider e ep built_auth)"

text \<open>
  \<^verbatim>\<open>const provider = options.providers?.[providerName] || providers[providerName] || registry;\<close>

  What is found is a provider (\<^const>\<open>Inr\<close>) or a function that the two objects inherit
  (\<^const>\<open>Inl\<close>).
\<close>

definition find_provider :: "env \<Rightarrow> DownloadTemplateOptions \<Rightarrow> string
    \<Rightarrow> (inherited + provider) option" where
  "find_provider e options providerName =
     (case custom_providers options providerName of
        Some c \<Rightarrow> Some (Inr (run_custom e c))
      | None \<Rightarrow>
          (case providers e providerName of
             Some p \<Rightarrow> Some (Inr p)
           | None \<Rightarrow>
               (case object_prototype providerName of
                  Some m \<Rightarrow> Some (Inl m)
                | None \<Rightarrow> map_option Inr (registry_of e options))))"

text \<open>A template with none of the properties that the code reads.\<close>

definition no_template :: TemplateInfo where
  "no_template =
     \<lparr> name = None, tar = None, version = None, tsubdir = None, url = None,
       defaultDir = None, headers = None \<rparr>"

text \<open>
  The call of an inherited function in the place of a provider, up to the first
  assignment to \<^verbatim>\<open>template.name\<close>: a \<^verbatim>\<open>TypeError\<close> of the call is wrapped like the error of
  a provider, \<^verbatim>\<open>false\<close> is no template, and the string that \<^verbatim>\<open>toString\<close> gives makes the
  assignment fail, outside the wrapping.
\<close>

definition call_inherited :: "inherited \<Rightarrow> string \<Rightarrow> string \<Rightarrow> world
    \<Rightarrow> (error + string \<times> string \<times> TemplateInfo) \<times> world" where
  "call_inherited m providerName src w =
     (case m of
        ObjectConstructor \<Rightarrow> (Inr (providerName, src, no_template), w)
      | ObjectToString \<Rightarrow> (Inl (TypeError ''Cannot create property name on string''), w)
      | ObjectIsPrototypeOf \<Rightarrow> (Inl (ResolveFailed providerName), w)
      | ObjectThrows \<Rightarrow>
          (Inl (ProviderFailed providerName
                  (TypeError ''Cannot convert undefined or null to object'')), w))"

text \<open>
  The resolution of the template: the provider is chosen and called with the source and
  \<^verbatim>\<open>{ auth: options.auth }\<close>; its error is wrapped, and \<^verbatim>\<open>null\<close> is an error. The result is
  the provider name, the source and the template as the provider gave it.
\<close>

definition resolve_template :: "env \<Rightarrow> string \<Rightarrow> DownloadTemplateOptions \<Rightarrow> world
    \<Rightarrow> (error + string \<times> string \<times> TemplateInfo) \<times> world" where
  "resolve_template e input options w =
     (case provider_and_source input options of
        (providerName, src) \<Rightarrow>
          (case find_provider e options providerName of
             None \<Rightarrow> (Inl (UnsupportedProvider providerName), w)
           | Some (Inl m) \<Rightarrow> call_inherited m providerName src w
           | Some (Inr p) \<Rightarrow>
               (case p src (auth_token options) w of
                  (Inl err, w1) \<Rightarrow> (Inl (ProviderFailed providerName err), w1)
                | (Inr None, w1) \<Rightarrow> (Inl (ResolveFailed providerName), w1)
                | (Inr (Some t), w1) \<Rightarrow> (Inr (providerName, src, t), w1))))"

text \<open>\<^verbatim>\<open>.replace(/[^\da-z-]/gi, "-")\<close>: every code unit that is not an ASCII letter, a
  digit or a dash becomes a dash.\<close>

definition sanitize :: "string \<Rightarrow> string" where
  "sanitize s =
     map (\<lambda>c. if is_digit c \<or> is_lower c \<or> is_upper c \<or> c = CHR ''-'' then c else CHR ''-'') s"

text \<open>
  \<^verbatim>\<open>template.name = (template.name || "template").replace(/[^\da-z-]/gi, "-");\<close>
  \<^verbatim>\<open>template.defaultDir = (template.defaultDir || template.name).replace(/[^\da-z-]/gi, "-");\<close>
\<close>

definition sanitized_name :: "TemplateInfo \<Rightarrow> string" where
  "sanitized_name t = sanitize (or_else (name t) ''template'')"

definition sanitized_defaultDir :: "TemplateInfo \<Rightarrow> string" where
  "sanitized_defaultDir t = sanitize (or_else (defaultDir t) (sanitized_name t))"

definition sanitize_template :: "TemplateInfo \<Rightarrow> TemplateInfo" where
  "sanitize_template t =
     t\<lparr> name := Some (sanitized_name t), defaultDir := Some (sanitized_defaultDir t) \<rparr>"

text \<open>
  \<^verbatim>\<open>cacheDirectory()\<close>, and the cache path of the tarball:

  \<^verbatim>\<open>const temporaryDirectory = resolve(cacheDirectory(), providerName, template.name);\<close>
  \<^verbatim>\<open>const tarPath = resolve(temporaryDirectory, (template.version || template.name) + ".tar.gz");\<close>
\<close>

definition cacheDirectory :: "env \<Rightarrow> string" where
  "cacheDirectory e =
     (if truthy (getenv e ''XDG_CACHE_HOME'')
      then resolve e [or_else (getenv e ''XDG_CACHE_HOME'') [], ''giget'']
      else resolve e [homedir e, ''.cache/giget''])"

definition tarPath :: "env \<Rightarrow> string \<Rightarrow> TemplateInfo \<Rightarrow> string" where
  "tarPath e providerName t =
     resolve e [resolve e [cacheDirectory e, providerName, sanitized_name t],
                or_else (version t) (sanitized_name t) @ ''.tar.gz'']"

text \<open>The ancestors of a path: what stands in front of each of its slashes but the
  first character.\<close>

definition ancestors :: "string \<Rightarrow> string list" where
  "ancestors d = map (\<lambda>i. take i d) (filter (\<lambda>i. d ! i = CHR ''/'') [1..<length d])"

definition is_file :: "node option \<Rightarrow> bool" where
  "is_file n = (case n of Some (File _) \<Rightarrow> True | _ \<Rightarrow> False)"

text \<open>
  \<^verbatim>\<open>ensureDir\<close> of \<^verbatim>\<open>@std/fs\<close>. \<^verbatim>\<open>Deno.stat\<close> comes first: there is nothing to do for a
  directory, and a file is an error, at the path or on the way to it. For a path that
  is not there, \<^verbatim>\<open>Deno.mkdir(dir, { recursive: true })\<close> makes the directory and those of
  its ancestors that are missing.
\<close>

definition ensureDir :: "store \<Rightarrow> string \<Rightarrow> error + store" where
  "ensureDir st d =
     (case st d of
        Some Dir \<Rightarrow> Inr st
      | Some (File _) \<Rightarrow> Inl (NotADirectory d)
      | None \<Rightarrow>
          (case filter (\<lambda>a. is_file (st a)) (ancestors d) of
             a # _ \<Rightarrow> Inl (NotADirectory a)
           | [] \<Rightarrow>
               Inr (\<lambda>p. if (p = d \<or> p \<in> set (ancestors d)) \<and> st p = None then Some Dir
                        else st p)))"

text \<open>\<^verbatim>\<open>Deno.remove(path, { recursive: true })\<close>: the path and all below it go; a path that
  is not there is an error.\<close>

definition under :: "string \<Rightarrow> string \<Rightarrow> bool" where
  "under d p = (p = d \<or> startsWith p (d @ ''/''))"

definition remove_recursive :: "store \<Rightarrow> string \<Rightarrow> error + store" where
  "remove_recursive st d =
     (if st d = None then Inl (NotFound d)
      else Inr (\<lambda>p. if under d p then None else st p))"

text \<open>
  The headers of the download:
  \<^verbatim>\<open>{ Authorization: options.auth ? `Bearer ${options.auth}` : undefined,\<close>
  \<^verbatim>\<open>  ...normalizeHeaders(template.headers) }\<close>
\<close>

definition download_headers :: "DownloadTemplateOptions \<Rightarrow> TemplateInfo \<Rightarrow> jsheaders" where
  "download_headers options t =
     foldl (\<lambda>obj (k, v). AList.update k (Some v) obj)
           [(''Authorization'', bearer (auth_token options))]
           (normalizeHeaders (case headers t of None \<Rightarrow> [] | Some h \<Rightarrow> h))"

text \<open>The URL handed to \<^verbatim>\<open>download\<close>; a template without \<^verbatim>\<open>tar\<close> gives \<^verbatim>\<open>undefined\<close>, which
  \<^verbatim>\<open>fetch\<close> reads as the string of that name.\<close>

definition tar_url :: "TemplateInfo \<Rightarrow> string" where
  "tar_url t = (case tar t of None \<Rightarrow> ''undefined'' | Some u \<Rightarrow> u)"

text \<open>
  \<^verbatim>\<open>if (!(await exists(tarPath))) {\<close>
  \<^verbatim>\<open>  throw new Error(`Tarball not found: ${tarPath} (offline: ${options.offline})`);\<close>
  \<^verbatim>\<open>}\<close>

  The result is the value of \<^verbatim>\<open>options.offline\<close> at this point.
\<close>

definition require_tarball :: "string \<Rightarrow> bool \<Rightarrow> world \<Rightarrow> (error + bool) \<times> world" where
  "require_tarball tp off w =
     (if \<not> exists_path (files w) tp then (Inl (TarballNotFound tp off), w)
      else (Inr off, w))"

text \<open>
  The download step with its handler:

  \<^verbatim>\<open>await ensureDir(dirname(tarPath));\<close>
  \<^verbatim>\<open>await download(template.tar, tarPath, { headers: ... }).catch(async (error) => {\<close>
  \<^verbatim>\<open>  if (!(await exists(tarPath))) { throw error; }\<close>
  \<^verbatim>\<open>  options.offline = true;\<close>
  \<^verbatim>\<open>});\<close>

  The result is again the value of \<^verbatim>\<open>options.offline\<close>: \<^const>\<open>True\<close> when the handler has
  taken the error.
\<close>

definition download_step :: "env \<Rightarrow> DownloadTemplateOptions \<Rightarrow> string \<Rightarrow> TemplateInfo \<Rightarrow> world
    \<Rightarrow> (error + bool) \<times> world" where
  "download_step e options tp t w =
     (case ensureDir (files w) (dirname e tp) of
        Inl err \<Rightarrow> (Inl err, w)
      | Inr st1 \<Rightarrow>
          (case download e (tar_url t) tp (Some (download_headers options t))
                  (w\<lparr> files := st1 \<rparr>) of
             (Inl err, w2) \<Rightarrow>
               if \<not> exists_path (files w2) tp then (Inl err, w2) else (Inr True, w2)
           | (Inr _, w2) \<Rightarrow> (Inr False, w2)))"

text \<open>
  From the offline policy to the tarball check:

  \<^verbatim>\<open>if (options.preferOffline && (await exists(tarPath))) { options.offline = true; }\<close>
  \<^verbatim>\<open>if (!options.offline) { ... download step ... }\<close>
  \<^verbatim>\<open>if (!(await exists(tarPath))) { throw ... }\<close>
\<close>

definition acquire :: "env \<Rightarrow> DownloadTemplateOptions \<Rightarrow> string \<Rightarrow> TemplateInfo \<Rightarrow> world
    \<Rightarrow> (error + bool) \<times> world" where
  "acquire e options tp t w =
     (if offline options \<or> (preferOffline options \<and> exists_path (files w) tp)
      then require_tarball tp True w
      else (case download_step e options tp t w of
              (Inl err, w2) \<Rightarrow> (Inl err, w2)
            | (Inr off, w2) \<Rightarrow> require_tarball tp off w2))"

text \<open>
  \<^verbatim>\<open>const cwd = resolve(options.cwd || ".");\<close>
  \<^verbatim>\<open>const extractPath = resolve(cwd, options.dir || template.defaultDir);\<close>
\<close>

definition extractPath :: "env \<Rightarrow> DownloadTemplateOptions \<Rightarrow> TemplateInfo \<Rightarrow> string" where
  "extractPath e options t =
     resolve e [resolve e [or_else (cwd options) ''.''],
                or_else (opt_dir options) (sanitized_defaultDir t)]"

text \<open>
  The extraction into the destination:

  \<^verbatim>\<open>if (options.forceClean) { await Deno.remove(extractPath, { recursive: true }); }\<close>
  \<^verbatim>\<open>if (!options.force && (await exists(extractPath))) {\<close>
  \<^verbatim>\<open>  throw new Error(`Destination ${extractPath} already exists.`);\<close>
  \<^verbatim>\<open>}\<close>
  \<^verbatim>\<open>await ensureDir(extractPath);\<close>
  \<^verbatim>\<open>const subdir = template.subdir?.replace(/^\//, "") || "";\<close>
  \<^verbatim>\<open>await extract({ file: tarPath, cwd: extractPath, onentry(entry) { ... } });\<close>
\<close>

definition place :: "env \<Rightarrow> DownloadTemplateOptions \<Rightarrow> string \<Rightarrow> TemplateInfo \<Rightarrow> world
    \<Rightarrow> (error + string) \<times> world" where
  "place e options tp t w =
     (case (if forceClean options then remove_recursive (files w) (extractPath e options t)
            else Inr (files w)) of
        Inl err \<Rightarrow> (Inl err, w)
      | Inr st1 \<Rightarrow>
          if \<not> force options \<and> exists_path st1 (extractPath e options t)
          then (Inl (DestinationExists (extractPath e options t)), w\<lparr> files := st1 \<rparr>)
          else
            (case ensureDir st1 (extractPath e options t) of
               Inl err \<Rightarrow> (Inl err, w\<lparr> files := st1 \<rparr>)
             | Inr st2 \<Rightarrow>
                 (case tar_extract e (onentry (requested_subdir (tsubdir t))) tp
                         (extractPath e options t) st2 of
                    Inl msg \<Rightarrow> (Inl (ExtractFailed msg), w\<lparr> files := st2 \<rparr>)
                  | Inr st3 \<Rightarrow> (Inr (extractPath e options t), w\<lparr> files := st3 \<rparr>))))"

text \<open>\<^verbatim>\<open>downloadTemplate(input, options)\<close>: the options are merged, the template is
  resolved and sanitized, the tarball is acquired and extracted, and the result is built.\<close>

definition downloadTemplate :: "env \<Rightarrow> string \<Rightarrow> DownloadTemplateOptions \<Rightarrow> world
    \<Rightarrow> (error + DownloadTemplateResult) \<times> world" where
  "downloadTemplate e input options w =
     (case resolve_template e input (merge_options e options) w of
        (Inl err, w1) \<Rightarrow> (Inl err, w1)
      | (Inr (providerName, src, t), w1) \<Rightarrow>
          (case acquire e (merge_options e options) (tarPath e providerName t) t w1 of
             (Inl err, w2) \<Rightarrow> (Inl err, w2)
           | (Inr off, w2) \<Rightarrow>
               (case place e (merge_options e options) (tarPath e providerName t) t w2 of
                  (Inl err, w3) \<Rightarrow> (Inl err, w3)
                | (Inr d, w3) \<Rightarrow>
                    (Inr \<lparr> template = sanitize_template t, source = src, dir = d \<rparr>, w3))))"

section \<open>The extractor (\<^verbatim>\<open>extract\<close> of \<^verbatim>\<open>npm:tar\<close>)\<close>

text \<open>
  Modelled from the spec: the unpacking is done by the library \<^verbatim>\<open>npm:tar\<close>, which is not
  part of the repository and which the orchestrator above takes as a parameter. The
  spec asks of the extractor that an entry with an empty path is not written and that
  an entry whose path has a parent-directory segment is rejected. The library, called
  as the code calls it (with its defaults \<^verbatim>\<open>preservePaths: false\<close> and \<^verbatim>\<open>maxDepth: 1024\<close>),
  does both, and two things more that its documentation states: it strips the root of
  an absolute path, and it skips an entry whose path has more than \<^verbatim>\<open>maxDepth\<close> parts. It
  looks at the path after \<^verbatim>\<open>onentry\<close> has rewritten it, in this order:

  \<^item> the path is split at its slashes, and an entry with more than 1024 parts is skipped;
  \<^item> an entry with a part \<^verbatim>\<open>..\<close> is skipped;
  \<^item> the slashes in front are stripped, and the path is resolved against the target
    directory, which drops empty parts and parts \<^verbatim>\<open>.\<close>;
  \<^item> an entry that resolves to the target directory itself is not written (a directory
    entry only sets properties of the directory there).

  \<open>checkpath\<close> gives the parts below the target directory at which the entry is written,
  or \<^const>\<open>None\<close> for an entry that is not.
\<close>

definition DEFAULT_MAX_DEPTH :: nat where
  "DEFAULT_MAX_DEPTH = 1024"

definition checkpath :: "string \<Rightarrow> string list option" where
  "checkpath path =
     (let parts = split_on CHR ''/'' path
      in if DEFAULT_MAX_DEPTH < length parts then None
         else if ''..'' \<in> set parts then None
         else (case filter (\<lambda>s. s \<noteq> [] \<and> s \<noteq> ''.'') parts of
                 [] \<Rightarrow> None
               | x # xs \<Rightarrow> Some (x # xs)))"

text \<open>What the extractor does with the path of an entry of the archive: \<^verbatim>\<open>onentry\<close> for
  the requested subdir, then the check.\<close>

definition entry_target :: "string \<Rightarrow> string \<Rightarrow> string list option" where
  "entry_target sd path = checkpath (onentry sd path)"

text \<open>The path of an entry with the given parts below the directory \<open>d\<close>, and the
  directories between \<open>d\<close> and the entry.\<close>

definition below :: "string \<Rightarrow> string list \<Rightarrow> string" where
  "below d segs = d @ ''/'' @ join ''/'' segs"

definition parents :: "string \<Rightarrow> string list \<Rightarrow> string list" where
  "parents d segs = map (\<lambda>k. below d (take k segs)) [1..<length segs]"

text \<open>An entry of an archive, as far as the store can hold it: a file with its path and
  content, or a directory with its path. Links and devices are not modelled.\<close>

datatype entry = FileEntry string string | DirectoryEntry string

fun entry_path :: "entry \<Rightarrow> string" where
  "entry_path (FileEntry p c) = p"
| "entry_path (DirectoryEntry p) = p"

fun entry_node :: "entry \<Rightarrow> node" where
  "entry_node (FileEntry p c) = File c"
| "entry_node (DirectoryEntry p) = Dir"

text \<open>
  Modelled from the spec: the writing of one entry. The directories on the way are made
  where they are missing, and the entry replaces what is at its path. An entry is
  given up when a file stands on the way, and a file entry also when a directory is at
  its path (the library removes an empty directory there; the store cannot tell whether
  a directory is empty).
\<close>

definition write_entry :: "string \<Rightarrow> store \<Rightarrow> string list \<Rightarrow> node \<Rightarrow> store" where
  "write_entry d st segs nd =
     (if list_ex (\<lambda>a. is_file (st a)) (parents d segs) then st
      else if nd \<noteq> Dir \<and> st (below d segs) = Some Dir then st
      else (\<lambda>p. if p = below d segs then Some nd
                else if p \<in> set (parents d segs) \<and> st p = None then Some Dir
                else st p))"

text \<open>
  Modelled from the spec: \<^verbatim>\<open>extract({ file, cwd, onentry })\<close>. The file is read as an
  archive by \<open>reader\<close> (\<^const>\<open>Inl\<close> with a message for bytes that are no gzipped archive);
  each entry is handed to \<^verbatim>\<open>onentry\<close>, which rewrites its path, then checked and written,
  in the order of the archive.
\<close>

definition unpack_entry :: "(string \<Rightarrow> string) \<Rightarrow> string \<Rightarrow> store \<Rightarrow> entry \<Rightarrow> store" where
  "unpack_entry rewrite d st en =
     (case checkpath (rewrite (entry_path en)) of
        None \<Rightarrow> st
      | Some segs \<Rightarrow> write_entry d st segs (entry_node en))"

definition unpack :: "(string \<Rightarrow> string) \<Rightarrow> string \<Rightarrow> entry list \<Rightarrow> store \<Rightarrow> store" where
  "unpack rewrite d ens st = foldl (unpack_entry rewrite d) st ens"

definition extract_archive :: "(string \<Rightarrow> string + entry list) \<Rightarrow> (string \<Rightarrow> string) \<Rightarrow> string
    \<Rightarrow> string \<Rightarrow> store \<Rightarrow> string + store" where
  "extract_archive reader rewrite file d st =
     (case st file of
        Some (File bytes) \<Rightarrow>
          (case reader bytes of
             Inl msg \<Rightarrow> Inl msg
           | Inr ens \<Rightarrow> Inr (unpack rewrite d ens st))
      | Some Dir \<Rightarrow> Inl ''EISDIR: illegal operation on a directory''
      | None \<Rightarrow> Inl ''ENOENT: no such file or directory'')"

section \<open>A sample environment\<close>

text \<open>
  A small concrete environment on which the functions above can be run: paths that are
  already normal, so that \<^verbatim>\<open>resolve\<close> is the joining of its arguments; a JSON codec for
  the two documents that occur; the extractor of the section above, with a reader that
  takes the bytes \<^verbatim>\<open>TAR\<close> and \<^verbatim>\<open>0123456789\<close> for an archive of the directory \<^verbatim>\<open>repo-main\<close> and
  the file \<^verbatim>\<open>repo-main/README.md\<close> and no other bytes; a runtime in which a pipe goes
  through and closing a piped file passes. The server is a parameter.
\<close>

definition sample_dirname :: "string \<Rightarrow> string" where
  "sample_dirname p = rev (drop 1 (dropWhile (\<lambda>c. c \<noteq> CHR ''/'') (rev p)))"

definition sample_basename :: "string \<Rightarrow> string" where
  "sample_basename p = rev (takeWhile (\<lambda>c. c \<noteq> CHR ''/'') (rev p))"

definition sample_parse_url :: "string \<Rightarrow> (string \<times> string) option" where
  "sample_parse_url s =
     (if startsWith s ''https://''
      then Some (s, dropWhile (\<lambda>c. c \<noteq> CHR ''/'') (drop 8 s))
      else None)"

definition sample_parse_info :: "string \<Rightarrow> info parsed" where
  "sample_parse_info s =
     (if s = ''{}'' then JsonValue \<lparr> etag = None \<rparr>
      else if s = ''null'' then JsonNull
      else if startsWith s ''etag:'' then JsonValue \<lparr> etag = Some (drop 5 s) \<rparr>
      else SyntaxError)"

definition sample_stringify_info :: "info \<Rightarrow> string" where
  "sample_stringify_info i = (case etag i of None \<Rightarrow> ''{}'' | Some t \<Rightarrow> ''etag:'' @ t)"

definition sample_parse_template :: "string \<Rightarrow> TemplateInfo parsed" where
  "sample_parse_template s =
     (if s = ''name:x'' then
        JsonValue \<lparr> name = Some ''x'', tar = None, version = None, tsubdir = None,
                    url = None, defaultDir = None, headers = None \<rparr>
      else if s = ''null'' then JsonNull
      else SyntaxError)"

definition sample_reader :: "string \<Rightarrow> string + entry list" where
  "sample_reader bytes =
     (if bytes = ''TAR'' \<or> bytes = ''0123456789''
      then Inr [DirectoryEntry ''repo-main/'', FileEntry ''repo-main/README.md'' ''readme'']
      else Inl ''TAR_BAD_ARCHIVE: Unrecognized archive format'')"

definition sample_env :: "(request \<Rightarrow> string + response) \<Rightarrow> env" where
  "sample_env server =
     \<lparr> fetch = server,
       getenv = (\<lambda>v. None),
       homedir = ''/home/u'',
       resolve = join ''/'',
       dirname = sample_dirname,
       basename = sample_basename,
       parse_url = sample_parse_url,
       parse_info = sample_parse_info,
       stringify_info = sample_stringify_info,
       parse_template = sample_parse_template,
       tar_extract = extract_archive sample_reader,
       pipe_failure = (\<lambda>res. None),
       close_piped = None \<rparr>"

text \<open>A server that cannot be reached, and one that answers every request with status
  200, the given headers and the given body.\<close>

definition unreachable :: "request \<Rightarrow> string + response" where
  "unreachable rq = Inl ''network is unreachable''"

definition serving :: "(string \<times> string) list \<Rightarrow> string \<Rightarrow> request \<Rightarrow> string + response" where
  "serving hs body rq =
     Inr \<lparr> rs_status = 200, rs_statusText = ''OK'', rs_headers = hs, rs_body = Some body \<rparr>"

text \<open>An environment in which the stream of every body breaks after the bytes it has
  delivered.\<close>

definition breaking_env :: "(request \<Rightarrow> string + response) \<Rightarrow> env" where
  "breaking_env server =
     (sample_env server)\<lparr> pipe_failure := (\<lambda>res. Some (StreamFailed ''connection reset'')) \<rparr>"

text \<open>Options with nothing set, and the registry switched off.\<close>

definition no_options :: DownloadTemplateOptions where
  "no_options =
     \<lparr> provider = None, force = False, forceClean = False, offline = False,
       preferOffline = False, custom_providers = (\<lambda>n. None), opt_dir = None,
       registry = Some RegistryFalse, cwd = Some ''/work'', auth = None \<rparr>"

text \<open>A world with a cached tarball of ten bytes and its sidecar, and no request
  sent yet.\<close>

definition sample_world :: world where
  "sample_world =
     \<lparr> files = (\<lambda>p. if p = ''/cache/t.tar.gz'' then Some (File ''0123456789'')
                     else if p = ''/cache/t.tar.gz.json'' then Some (File ''etag:v1'')
                     else None),
       requests = [] \<rparr>"

text \<open>Three more worlds: one with nothing in it; one with a destination directory
  \<^verbatim>\<open>/work/out\<close> that holds a file; and one that has, besides that destination, the cached
  tarball of \<^verbatim>\<open>gh:org/repo\<close> at \<^verbatim>\<open>main\<close> and its sidecar.\<close>

definition empty_world :: world where
  "empty_world = \<lparr> files = (\<lambda>p. None), requests = [] \<rparr>"

definition destination_world :: world where
  "destination_world =
     \<lparr> files = (\<lambda>p. if p = ''/work/out'' then Some Dir
                     else if p = ''/work/out/keep.txt'' then Some (File ''mine'')
                     else None),
       requests = [] \<rparr>"

definition cached_world :: world where
  "cached_world =
     \<lparr> files = (\<lambda>p. if p = ''/home/u/.cache/giget/gh/org-repo/main.tar.gz''
                       then Some (File ''0123456789'')
                     else if p = ''/home/u/.cache/giget/gh/org-repo/main.tar.gz.json''
                       then Some (File ''etag:v1'')
                     else if p = ''/work/out'' then Some Dir
                     else if p = ''/work/out/keep.txt'' then Some (File ''mine'')
                     else None),
       requests = [] \<rparr>"

text \<open>The template the GitHub provider gives for \<^verbatim>\<open>org/repo\<close>.\<close>

definition org_repo_template :: TemplateInfo where
  "org_repo_template =
     \<lparr> name = Some ''org-repo'',
       tar = Some ''https://api.github.com/repos/org/repo/tarball/main'',
       version = Some ''main'',
       tsubdir = Some ''/'',
       url = Some ''https://github.com/org/repo/tree/main/'',
       defaultDir = None,
       headers = Some [(''Authorization'', None),
                       (''Accept'', Some ''application/vnd.github+json''),
                       (''X-GitHub-Api-Version'', Some ''2022-11-28'')] \<rparr>"

text \<open>A world with an empty cache in which the path of the sidecar of \<^verbatim>\<open>gh:org/repo\<close>
  is taken by a directory.\<close>

definition blocked_sidecar_world :: world where
  "blocked_sidecar_world =
     \<lparr> files = (\<lambda>p. if p = ''/home/u/.cache/giget/gh/org-repo/main.tar.gz.json'' then Some Dir
                     else None),
       requests = [] \<rparr>"

text \<open>A world in which the destination \<^verbatim>\<open>/home/u\<close> holds the cache: the cached tarball of
  \<^verbatim>\<open>gh:org/repo\<close> at \<^verbatim>\<open>main\<close> and its sidecar lie in it.\<close>

definition home_world :: world where
  "home_world =
     \<lparr> files = (\<lambda>p. if p = ''/home/u/.cache/giget/gh/org-repo/main.tar.gz''
                       then Some (File ''0123456789'')
                     else if p = ''/home/u/.cache/giget/gh/org-repo/main.tar.gz.json''
                       then Some (File ''etag:v1'')
                     else if p = ''/home/u'' then Some Dir
                     else None),
       requests = [] \<rparr>"

section \<open>Facts about the string functions\<close>

lemma split_on_nonempty: "split_on sep xs \<noteq> []"
  by (induction xs) (auto split: list.splits)

lemma join_split_on: "join [sep] (split_on sep xs) = xs"
proof (induction xs)
  case Nil
  show ?case by simp
next
  case (Cons c cs)
  show ?case
  proof (cases "split_on sep cs")
    case Nil
    then show ?thesis using split_on_nonempty by blast
  next
    case (Cons piece pieces)
    then show ?thesis using Cons.IH by (cases pieces) auto
  qed
qed

text \<open>Dropping the first piece of a path is dropping everything up to and including
  its first \<^verbatim>\<open>/\<close>; a path without \<^verbatim>\<open>/\<close> becomes empty.\<close>

lemma strip_first_segment_eq:
  "strip_first_segment p = drop 1 (dropWhile (\<lambda>c. c \<noteq> CHR ''/'') p)"
proof -
  have "join ''/'' (drop 1 (split_on CHR ''/'' p)) = drop 1 (dropWhile (\<lambda>c. c \<noteq> CHR ''/'') p)"
  proof (induction p)
    case Nil
    show ?case by simp
  next
    case (Cons c cs)
    show ?case
    proof (cases "c = CHR ''/''")
      case True
      then show ?thesis using join_split_on[of "CHR ''/''" cs] by simp
    next
      case False
      then show ?thesis using Cons.IH split_on_nonempty[of "CHR ''/''" cs]
        by (cases "split_on CHR ''/'' cs") auto
    qed
  qed
  then show ?thesis by (simp add: strip_first_segment_def)
qed

lemma strip_first_segment_top:
  assumes "CHR ''/'' \<notin> set seg"
  shows "strip_first_segment (seg @ ''/'' @ rest) = rest"
proof -
  have "dropWhile (\<lambda>c. c \<noteq> CHR ''/'') (seg @ CHR ''/'' # rest) = CHR ''/'' # rest"
    using assms by (auto simp: dropWhile_append3)
  then show ?thesis by (simp add: strip_first_segment_eq)
qed

lemma not_repo_char_slash: "\<not> is_repo_char CHR ''/''"
  by (simp add: is_repo_char_def is_word_def is_digit_def is_upper_def is_lower_def)

lemma not_repo_char_hash: "\<not> is_repo_char CHR ''#''"
  by (simp add: is_repo_char_def is_word_def is_digit_def is_upper_def is_lower_def)

lemma not_repo_char_colon: "\<not> is_repo_char CHR '':''"
  by (simp add: is_repo_char_def is_word_def is_digit_def is_upper_def is_lower_def)

section \<open>The URI parser: defaults and the ref\<close>

lemma inputRegex_repo_only:
  assumes "owner \<noteq> []" "list_all is_repo_char owner" "nm \<noteq> []" "list_all is_repo_char nm"
  shows "inputRegex (owner @ ''/'' @ nm) =
           Some \<lparr> g_repo = owner @ ''/'' @ nm, g_subdir = None, g_ref = None \<rparr>"
proof -
  have a: "takeWhile is_repo_char (owner @ CHR ''/'' # nm) = owner"
    using assms(2) not_repo_char_slash by (simp add: list_all_iff takeWhile_tail)
  have b: "dropWhile is_repo_char (owner @ CHR ''/'' # nm) = CHR ''/'' # nm"
    using assms(2) not_repo_char_slash by (simp add: list_all_iff dropWhile_append3)
  have c: "takeWhile is_repo_char nm = nm" "dropWhile is_repo_char nm = []"
    using assms(4) by (simp_all add: list_all_iff)
  show ?thesis using assms(1,3) by (simp add: inputRegex_def a b c)
qed

text \<open>With a \<^verbatim>\<open>#\<close> right after the repo, the \<^verbatim>\<open>ref\<close> group is \<^verbatim>\<open>#\<close> and the longest run of
  \<^verbatim>\<open>[\w./@-]\<close> after it, and takes no part in the match when that run is empty.\<close>

lemma inputRegex_hash:
  assumes "owner \<noteq> []" "list_all is_repo_char owner" "nm \<noteq> []" "list_all is_repo_char nm"
  shows "inputRegex (owner @ ''/'' @ nm @ ''#'' @ R) =
           Some \<lparr> g_repo = owner @ ''/'' @ nm, g_subdir = None,
                  g_ref = (if takeWhile is_ref_char R = [] then None
                           else Some (''#'' @ takeWhile is_ref_char R)) \<rparr>"
proof -
  have a: "takeWhile is_repo_char (owner @ CHR ''/'' # nm @ CHR ''#'' # R) = owner"
    using assms(2) not_repo_char_slash by (simp add: list_all_iff takeWhile_tail)
  have b: "dropWhile is_repo_char (owner @ CHR ''/'' # nm @ CHR ''#'' # R) =
             CHR ''/'' # nm @ CHR ''#'' # R"
    using assms(2) not_repo_char_slash by (simp add: list_all_iff dropWhile_append3)
  have c: "takeWhile is_repo_char (nm @ CHR ''#'' # R) = nm"
    "dropWhile is_repo_char (nm @ CHR ''#'' # R) = CHR ''#'' # R"
    using assms(4) not_repo_char_hash
    by (simp_all add: list_all_iff takeWhile_tail dropWhile_append3)
  show ?thesis using assms(1,3) by (simp add: inputRegex_def a b c)
qed

lemma parseGitURI_hash:
  assumes "owner \<noteq> []" "list_all is_repo_char owner" "nm \<noteq> []" "list_all is_repo_char nm"
  shows "ref (parseGitURI (owner @ ''/'' @ nm @ ''#'' @ R)) =
           (if takeWhile is_ref_char R = [] then ''main'' else takeWhile is_ref_char R)"
  using inputRegex_hash[OF assms, of R] by (simp add: parseGitURI_def)

text \<open>
  C6. For every input \<^verbatim>\<open>owner/repo\<close> made of two non-empty segments of word characters,
  dots and dashes, with no subdir and no ref, \<^verbatim>\<open>parseGitURI\<close> returns exactly
  \<^verbatim>\<open>{repo: "owner/repo", subdir: "/", ref: "main"}\<close>.
\<close>

theorem parseGitURI_defaults:
  assumes "owner \<noteq> []" "list_all is_repo_char owner" "nm \<noteq> []" "list_all is_repo_char nm"
  shows "parseGitURI (owner @ ''/'' @ nm) =
           \<lparr> repo = Some (owner @ ''/'' @ nm), subdir = ''/'', ref = ''main'' \<rparr>"
  using inputRegex_repo_only[OF assms] by (simp add: parseGitURI_def)

theorem parseGitURI_defaults_witness:
  "parseGitURI ''org/repo'' = \<lparr> repo = Some ''org/repo'', subdir = ''/'', ref = ''main'' \<rparr>"
  using parseGitURI_defaults[of "''org''" "''repo''"]
  by (simp add: is_repo_char_def is_word_def is_digit_def is_upper_def is_lower_def)

text \<open>
  C7, as amended. For every input \<^verbatim>\<open>owner/repo#R\<close> where \<^verbatim>\<open>R\<close> is non-empty and made only
  of word characters and \<^verbatim>\<open>.\<close>, \<^verbatim>\<open>/\<close>, \<^verbatim>\<open>@\<close>, \<^verbatim>\<open>-\<close> (the class \<^verbatim>\<open>[\w./@-]\<close> of the regular
  expression), \<^verbatim>\<open>parseGitURI\<close> returns \<^verbatim>\<open>ref\<close> equal to \<^verbatim>\<open>R\<close>.
\<close>

theorem parseGitURI_ref:
  assumes "owner \<noteq> []" "list_all is_repo_char owner" "nm \<noteq> []" "list_all is_repo_char nm"
    and "R \<noteq> []" "list_all is_ref_char R"
  shows "ref (parseGitURI (owner @ ''/'' @ nm @ ''#'' @ R)) = R"
proof -
  have run: "takeWhile is_ref_char R = R"
    using assms(6) by (simp add: list_all_iff)
  show ?thesis
    using parseGitURI_hash[OF assms(1-4), of R] assms(5) by (simp add: run)
qed

theorem parseGitURI_ref_witness:
  "ref (parseGitURI ''org/repo#ref/ABC-123'') = ''ref/ABC-123''"
  using parseGitURI_ref[of "''org''" "''repo''" "''ref/ABC-123''"]
  by (simp add: is_repo_char_def is_ref_char_def is_word_def is_digit_def is_upper_def
      is_lower_def)

text \<open>The claim as first stated, for every non-empty \<^verbatim>\<open>R\<close>, fails as soon as \<^verbatim>\<open>R\<close> has a
  character outside the class: the ref stops in front of it.\<close>

theorem parseGitURI_ref_counterexample:
  "ref (parseGitURI ''org/repo#a+b'') = ''a'' \<and> ''a'' \<noteq> ''a+b''"
  using parseGitURI_hash[of "''org''" "''repo''" "''a+b''"]
  by (simp add: is_repo_char_def is_ref_char_def is_word_def is_digit_def is_upper_def
      is_lower_def)

section \<open>The path rewrite and the extractor: where an entry is written\<close>

text \<open>Without a requested subdir the rewrite is the removal of the first segment and
  nothing else; whatever the rest of the path holds is handed on as it is.\<close>

lemma onentry_no_subdir: "onentry [] path = strip_first_segment path"
  by (simp add: onentry_def)

lemma onentry_skip:
  "sd \<noteq> [] \<Longrightarrow> \<not> startsWith (strip_first_segment path) (sd @ ''/'') \<Longrightarrow> onentry sd path = []"
  by (simp add: onentry_def)

text \<open>In particular a parent-directory segment is not looked for by the rewrite: it
  stays in the path that is handed to the extractor.\<close>

lemma onentry_hands_on:
  "CHR ''/'' \<notin> set seg \<Longrightarrow> onentry [] (seg @ ''/'' @ rest) = rest"
  using strip_first_segment_top[of seg rest] by (simp add: onentry_no_subdir)

lemma onentry_parent_segment_example: "onentry [] ''repo-main/../evil'' = ''../evil''"
  using onentry_hands_on[of "''repo-main''" "''../evil''"] by simp

text \<open>An entry \<^verbatim>\<open>seg/sd/rest\<close> under the requested subdir \<^verbatim>\<open>sd\<close> loses its first segment
  and then only the \<^verbatim>\<open>sd.length\<close> characters of \<^verbatim>\<open>sd\<close>: the rewritten path is \<^verbatim>\<open>/rest\<close>, with
  the separator that followed \<^verbatim>\<open>sd\<close> still in front.\<close>

lemma onentry_keeps_separator:
  assumes "CHR ''/'' \<notin> set seg" "sd \<noteq> []"
  shows "onentry sd (seg @ ''/'' @ sd @ ''/'' @ rest) = ''/'' @ rest"
  using assms strip_first_segment_top[OF assms(1), of "sd @ ''/'' @ rest"]
  by (simp add: onentry_def startsWith_def)

lemma onentry_keeps_separator_example:
  "onentry ''foo'' ''repo-main/foo/bar.txt'' = ''/bar.txt''"
  using onentry_keeps_separator[of "''repo-main''" "''foo''" "''bar.txt''"]
  by simp

text \<open>Splitting what was joined gives the pieces back.\<close>

lemma split_on_piece: "sep \<notin> set x \<Longrightarrow> split_on sep x = [x]"
  by (induction x) auto

lemma split_on_append:
  "sep \<notin> set x \<Longrightarrow> split_on sep (x @ sep # rest) = x # split_on sep rest"
  by (induction x) (auto split: list.splits)

lemma split_on_join:
  assumes "xs \<noteq> []" "\<forall>s\<in>set xs. sep \<notin> set s"
  shows "split_on sep (join [sep] xs) = xs"
  using assms
proof (induction "[sep]" xs rule: join.induct)
  case 1
  then show ?case by simp
next
  case (2 x)
  then show ?case by (simp add: split_on_piece)
next
  case (3 x y ys)
  then show ?case by (simp add: split_on_append)
qed

text \<open>The separator in front of a path is one part more for the check of the depth and
  nothing else: the extractor strips it. So a path \<^verbatim>\<open>/rest\<close> goes where \<^verbatim>\<open>rest\<close> goes,
  unless \<^verbatim>\<open>rest\<close> has exactly as many parts as the limit allows.\<close>

lemma checkpath_separator:
  "checkpath (''/'' @ rest) =
     (if length (split_on CHR ''/'' rest) = DEFAULT_MAX_DEPTH then None else checkpath rest)"
  by (auto simp: checkpath_def Let_def)

lemma checkpath_empty: "checkpath [] = None"
  by (simp add: checkpath_def Let_def DEFAULT_MAX_DEPTH_def)

text \<open>What the extractor does with an entry, by the three cases of the rewrite: without
  a requested subdir the entry goes where its path without the first segment says; an
  entry under the subdir goes where the rest of its path says, below the limit of the
  depth; every other entry is not written.\<close>

lemma entry_target_no_subdir:
  "entry_target [] path = checkpath (strip_first_segment path)"
  by (simp add: entry_target_def onentry_no_subdir)

lemma entry_target_under_subdir:
  assumes "sd \<noteq> []" "strip_first_segment path = sd @ ''/'' @ rest"
  shows "entry_target sd path =
           (if length (split_on CHR ''/'' rest) = DEFAULT_MAX_DEPTH then None else checkpath rest)"
proof -
  have "onentry sd path = ''/'' @ rest"
    using assms by (simp add: onentry_def startsWith_def)
  then show ?thesis using checkpath_separator[of rest] by (simp add: entry_target_def)
qed

lemma entry_target_skip:
  assumes "sd \<noteq> []" "\<not> startsWith (strip_first_segment path) (sd @ ''/'')"
  shows "onentry sd path = [] \<and> entry_target sd path = None"
  using onentry_skip[OF assms] by (simp add: entry_target_def checkpath_empty)

lemma checkpath_join:
  assumes "segs \<noteq> []" "length segs \<le> DEFAULT_MAX_DEPTH"
    and "\<forall>s\<in>set segs. CHR ''/'' \<notin> set s \<and> s \<noteq> [] \<and> s \<noteq> ''.'' \<and> s \<noteq> ''..''"
  shows "checkpath (join ''/'' segs) = Some segs"
proof -
  have sp: "split_on CHR ''/'' (join ''/'' segs) = segs"
    using split_on_join[of segs "CHR ''/''"] assms(1,3) by simp
  have keep: "filter (\<lambda>s. s \<noteq> [] \<and> s \<noteq> ''.'') segs = segs"
    using assms(3) by (simp add: filter_id_conv)
  have np: "''..'' \<notin> set segs" using assms(3) by blast
  have "checkpath (join ''/'' segs) =
          (case filter (\<lambda>s. s \<noteq> [] \<and> s \<noteq> ''.'') segs of [] \<Rightarrow> None | x # xs \<Rightarrow> Some (x # xs))"
    unfolding checkpath_def Let_def sp using assms(2) np by simp
  then have "checkpath (join ''/'' segs) = (case segs of [] \<Rightarrow> None | x # xs \<Rightarrow> Some (x # xs))"
    unfolding keep .
  then show ?thesis
    using assms(1) by (cases segs) simp_all
qed

text \<open>
  C4, the behaviour of the code. The rewrite tests for the prefix \<^verbatim>\<open>subdir + "/"\<close> and
  then removes \<^verbatim>\<open>subdir.length\<close> characters, one less than the prefix: the separator
  stays in front of the rewritten path. The extractor strips it again, but only after
  it has counted the parts of the path. For an entry \<^verbatim>\<open>seg/sd/rest\<close> whose \<^verbatim>\<open>rest\<close> has
  exactly 1024 parts, the rewritten path \<^verbatim>\<open>/rest\<close> has 1025 parts and the entry is not
  written, where the path \<^verbatim>\<open>rest\<close>, which is the entry's path with exactly the prefix
  removed, is written.
\<close>

theorem entry_target_depth_boundary:
  assumes "sd \<noteq> []" "CHR ''/'' \<notin> set seg"
    and "length segs = DEFAULT_MAX_DEPTH"
    and "\<forall>s\<in>set segs. CHR ''/'' \<notin> set s \<and> s \<noteq> [] \<and> s \<noteq> ''.'' \<and> s \<noteq> ''..''"
  shows "startsWith (strip_first_segment (seg @ ''/'' @ sd @ ''/'' @ join ''/'' segs)) (sd @ ''/'')
       \<and> onentry sd (seg @ ''/'' @ sd @ ''/'' @ join ''/'' segs) = ''/'' @ join ''/'' segs
       \<and> entry_target sd (seg @ ''/'' @ sd @ ''/'' @ join ''/'' segs) = None
       \<and> checkpath (join ''/'' segs) = Some segs"
proof -
  have ne: "segs \<noteq> []" using assms(3) by (auto simp: DEFAULT_MAX_DEPTH_def)
  have st: "strip_first_segment (seg @ ''/'' @ sd @ ''/'' @ join ''/'' segs) = sd @ ''/'' @ join ''/'' segs"
    using strip_first_segment_top[OF assms(2), of "sd @ ''/'' @ join ''/'' segs"] by simp
  have sp: "split_on CHR ''/'' (join ''/'' segs) = segs"
    using split_on_join[of segs "CHR ''/''"] ne assms(4) by simp
  have a: "startsWith (strip_first_segment (seg @ ''/'' @ sd @ ''/'' @ join ''/'' segs)) (sd @ ''/'')"
    unfolding st by (simp add: startsWith_def)
  have b: "onentry sd (seg @ ''/'' @ sd @ ''/'' @ join ''/'' segs) = ''/'' @ join ''/'' segs"
    using onentry_keeps_separator[OF assms(2,1), of "join ''/'' segs"] .
  have c: "entry_target sd (seg @ ''/'' @ sd @ ''/'' @ join ''/'' segs) = None"
    using entry_target_under_subdir[OF assms(1) st] assms(3) by (simp add: sp)
  have d: "checkpath (join ''/'' segs) = Some segs"
    using checkpath_join[OF ne _ assms(4)] assms(3) by simp
  show ?thesis using a b c d by simp
qed

theorem entry_target_depth_boundary_witness:
  "onentry ''foo'' (''repo-main'' @ ''/'' @ ''foo'' @ ''/'' @ join ''/'' (replicate 1024 ''a''))
     = ''/'' @ join ''/'' (replicate 1024 ''a'')
   \<and> entry_target ''foo'' (''repo-main'' @ ''/'' @ ''foo'' @ ''/'' @ join ''/'' (replicate 1024 ''a''))
     = None
   \<and> checkpath (join ''/'' (replicate 1024 ''a'')) = Some (replicate 1024 ''a'')"
  using entry_target_depth_boundary[of "''foo''" "''repo-main''" "replicate 1024 ''a''"]
  by (simp add: DEFAULT_MAX_DEPTH_def)

text \<open>Below the limit the kept separator makes no difference: the entry is written
  where the path without the prefix says. So it is for the entry of the scenario.\<close>

lemma entry_target_example:
  "entry_target ''foo'' ''repo-main/foo/bar.txt'' = Some [''bar.txt'']
   \<and> entry_target ''foo'' ''repo-main/README.md'' = None
   \<and> entry_target [] ''repo-main/README.md'' = Some [''README.md'']"
  by code_simp

text \<open>What one entry and a whole archive do to the store: nothing outside the target
  directory.\<close>

lemma below_inside: "startsWith (below d segs) (d @ ''/'')"
  by (simp add: below_def startsWith_def)

lemma write_entry_inside:
  assumes "\<not> startsWith p (d @ ''/'')"
  shows "write_entry d st segs nd p = st p"
proof -
  have "p \<noteq> below d segs" using assms below_inside by metis
  moreover have "p \<notin> set (parents d segs)"
    using assms below_inside by (auto simp: parents_def)
  ultimately show ?thesis by (simp add: write_entry_def)
qed

lemma unpack_entry_inside:
  "\<not> startsWith p (d @ ''/'') \<Longrightarrow> unpack_entry rewrite d st en p = st p"
  by (simp add: unpack_entry_def write_entry_inside split: option.splits)

lemma unpack_inside:
  "\<not> startsWith p (d @ ''/'') \<Longrightarrow> unpack rewrite d ens st p = st p"
  unfolding unpack_def
  by (induction ens arbitrary: st) (simp_all add: unpack_entry_inside)

lemma checkpath_parts:
  assumes "checkpath path = Some segs"
  shows "''..'' \<notin> set segs \<and> ''.'' \<notin> set segs \<and> [] \<notin> set segs \<and> segs \<noteq> []
         \<and> ''..'' \<notin> set (split_on CHR ''/'' path)"
proof -
  let ?parts = "split_on CHR ''/'' path"
  have np: "''..'' \<notin> set ?parts"
    using assms by (auto simp: checkpath_def Let_def split: if_splits)
  have eq: "segs = filter (\<lambda>s. s \<noteq> [] \<and> s \<noteq> ''.'') ?parts"
    using assms by (auto simp: checkpath_def Let_def split: if_splits list.splits)
  have ne: "segs \<noteq> []"
    using assms by (auto simp: checkpath_def Let_def split: if_splits list.splits)
  show ?thesis using np eq ne by auto
qed

text \<open>
  C5. An entry whose rewritten path has a parent-directory segment is skipped by the
  extractor. An entry that is written goes to a path made of the target directory and
  parts none of which is a parent-directory segment, and unpacking an archive changes
  nothing in the store outside the target directory.
\<close>

theorem entry_target_no_escape:
  "(''..'' \<in> set (split_on CHR ''/'' (onentry sd path)) \<longrightarrow> entry_target sd path = None)
   \<and> (\<forall>segs. entry_target sd path = Some segs \<longrightarrow>
         ''..'' \<notin> set segs \<and> segs \<noteq> [] \<and> startsWith (below d segs) (d @ ''/''))
   \<and> (\<forall>p. \<not> startsWith p (d @ ''/'') \<longrightarrow> unpack (onentry sd) d ens st p = st p)"
proof -
  have a: "''..'' \<in> set (split_on CHR ''/'' (onentry sd path)) \<longrightarrow> entry_target sd path = None"
    by (simp add: entry_target_def checkpath_def Let_def)
  have b: "\<forall>segs. entry_target sd path = Some segs \<longrightarrow>
         ''..'' \<notin> set segs \<and> segs \<noteq> [] \<and> startsWith (below d segs) (d @ ''/'')"
    using checkpath_parts[of "onentry sd path"] below_inside by (simp add: entry_target_def)
  have c: "\<forall>p. \<not> startsWith p (d @ ''/'') \<longrightarrow> unpack (onentry sd) d ens st p = st p"
    using unpack_inside by blast
  show ?thesis using a b c by blast
qed

theorem entry_target_no_escape_witness:
  "entry_target [] ''repo-main/../evil'' = None
   \<and> unpack (onentry []) ''/work/out''
       [FileEntry ''repo-main/../evil'' ''x'', FileEntry ''repo-main/a/b'' ''y'']
       (\<lambda>p. None) ''/work/evil'' = None
   \<and> entry_target [] ''repo-main/a/b'' = Some [''a'', ''b'']
   \<and> startsWith (below ''/work/out'' [''a'', ''b'']) (''/work/out'' @ ''/'')"
proof -
  have dots: "''..'' \<in> set (split_on CHR ''/'' (onentry [] ''repo-main/../evil''))"
    by code_simp
  have out: "\<not> startsWith ''/work/evil'' (''/work/out'' @ ''/'')"
    by code_simp
  have ab: "entry_target [] ''repo-main/a/b'' = Some [''a'', ''b'']"
    by code_simp
  show ?thesis
    using entry_target_no_escape[of "[]" "''repo-main/../evil''" "''/work/out''"
            "[FileEntry ''repo-main/../evil'' ''x'', FileEntry ''repo-main/a/b'' ''y'']" "\<lambda>p. None"]
      entry_target_no_escape[of "[]" "''repo-main/a/b''" "''/work/out''" "[]" "\<lambda>p. None"]
      dots out ab
    by simp
qed

lemma unpack_example:
  "map (unpack (onentry []) ''/work/out''
          [FileEntry ''repo-main/../evil'' ''x'', FileEntry ''repo-main/a/b'' ''y''] (\<lambda>p. None))
       [''/work/evil'', ''/work/out/evil'', ''/work/out/a'', ''/work/out/a/b'']
     = [None, None, Some Dir, Some (File ''y'')]"
  by code_simp

section \<open>The downloader: what a call sends and what it writes\<close>

lemma sendFetch_files: "sendFetch e u opts w = (r, w') \<Longrightarrow> files w' = files w"
  by (auto simp: sendFetch_def Let_def split: sum.splits if_splits)

lemma sendFetch_requests:
  "sendFetch e u opts w = (r, w') \<Longrightarrow> requests w' = requests w @ [make_request u opts]"
  by (auto simp: sendFetch_def Let_def split: sum.splits if_splits)

lemma sendFetch_plain_result:
  "\<not> fo_validateStatus opts \<Longrightarrow>
   fst (sendFetch e u opts w) =
     (case fetch e (make_request u opts) of Inl msg \<Rightarrow> Inl (FetchFailed u msg) | Inr res \<Rightarrow> Inr res)"
  by (auto simp: sendFetch_def Let_def split: sum.splits if_splits)

lemma rq_method_head: "rq_method (head_request u hs) = ''HEAD''"
  by (simp add: head_request_def make_request_def Let_def)

text \<open>
  C2. When the sidecar of \<^verbatim>\<open>filePath\<close> stores an etag, the \<^verbatim>\<open>HEAD\<close> request returns the same
  ETag and \<^verbatim>\<open>filePath\<close> exists, \<^verbatim>\<open>download\<close> returns normally, the store (tarball and sidecar
  with it) is unchanged, and the one request it has sent is the \<^verbatim>\<open>HEAD\<close>: no \<^verbatim>\<open>GET\<close>.
\<close>

theorem download_cache_hit:
  assumes "files w (filePath @ ''.json'') = Some (File data)"
    and "parse_info e data = JsonValue i"
    and "etag i = Some t"
    and "fetch e (head_request u hs) = Inr res"
    and "header_get res ''etag'' = Some t"
    and "exists_path (files w) filePath"
  shows "\<exists>w'. download e u filePath hs w = (Inr (), w')
            \<and> files w' = files w
            \<and> requests w' = requests w @ [head_request u hs]
            \<and> rq_method (head_request u hs) = ''HEAD''"
proof -
  obtain hr w1 where sf: "sendFetch e u \<lparr> fo_method = Some ''HEAD'', fo_headers = hs, fo_validateStatus = False \<rparr> w = (hr, w1)"
    by (cases "sendFetch e u \<lparr> fo_method = Some ''HEAD'', fo_headers = hs, fo_validateStatus = False \<rparr> w")
  have hr: "hr = Inr res"
    using sendFetch_plain_result[of "\<lparr> fo_method = Some ''HEAD'', fo_headers = hs, fo_validateStatus = False \<rparr>" e u w] sf assms(4)
    by (simp add: head_request_def)
  have f1: "files w1 = files w" using sendFetch_files[OF sf] .
  have r1: "requests w1 = requests w @ [head_request u hs]"
    using sendFetch_requests[OF sf] by (simp add: head_request_def)
  have ri: "read_info e (files w) (filePath @ ''.json'') = Some i"
    using assms(1,2) by (simp add: read_info_def)
  have same: "same_etag (etag i) (head_etag hr)"
    using assms(3,5) hr by (simp add: same_etag_def head_etag_def)
  have "download e u filePath hs w = (Inr (), w1)"
    using sf ri same assms(6) f1 by (simp add: download_def)
  then show ?thesis using f1 r1 rq_method_head by simp
qed

theorem download_cache_hit_witness:
  "\<exists>w'. download (sample_env (serving [(''etag'', ''v1'')] ''fresh'')) ''https://example.com/t'' ''/cache/t.tar.gz'' None sample_world = (Inr (), w')
      \<and> files w' = files sample_world
      \<and> requests w' = [head_request ''https://example.com/t'' None]
      \<and> rq_method (head_request ''https://example.com/t'' None) = ''HEAD''"
proof -
  have a: "files sample_world (''/cache/t.tar.gz'' @ ''.json'') = Some (File ''etag:v1'')"
    by (simp add: sample_world_def)
  have b: "parse_info (sample_env (serving [(''etag'', ''v1'')] ''fresh'')) ''etag:v1'' = JsonValue \<lparr> etag = Some ''v1'' \<rparr>"
    by (simp add: sample_env_def sample_parse_info_def startsWith_def)
  have c: "fetch (sample_env (serving [(''etag'', ''v1'')] ''fresh'')) (head_request ''https://example.com/t'' None)
            = Inr \<lparr> rs_status = 200, rs_statusText = ''OK'', rs_headers = [(''etag'', ''v1'')], rs_body = Some ''fresh'' \<rparr>"
    by (simp add: sample_env_def serving_def)
  have d: "header_get \<lparr> rs_status = 200, rs_statusText = ''OK'', rs_headers = [(''etag'', ''v1'')], rs_body = Some ''fresh'' \<rparr> ''etag'' = Some ''v1''"
    by code_simp
  have ex: "exists_path (files sample_world) ''/cache/t.tar.gz''"
    by (simp add: sample_world_def exists_path_def)
  show ?thesis
    using download_cache_hit[OF a b _ c d ex]
    by (simp add: sample_world_def)
qed

text \<open>A call of \<^verbatim>\<open>download\<close> writes at most the tarball and its sidecar, and removes
  nothing.\<close>

lemma open_and_pipe_frame:
  "open_and_pipe st fp body = Inr st' \<Longrightarrow> p \<noteq> fp \<Longrightarrow> st' p = st p"
  by (auto simp: open_and_pipe_def split: option.splits node.splits)

lemma writeTextFile_frame:
  "writeTextFile st fp text = Inr st' \<Longrightarrow> p \<noteq> fp \<Longrightarrow> st' p = st p"
  by (auto simp: writeTextFile_def split: option.splits node.splits)

lemma open_and_pipe_keeps:
  "open_and_pipe st fp body = Inr st' \<Longrightarrow> exists_path st p \<Longrightarrow> exists_path st' p"
  by (auto simp: open_and_pipe_def exists_path_def split: option.splits node.splits)

lemma writeTextFile_keeps:
  "writeTextFile st fp text = Inr st' \<Longrightarrow> exists_path st p \<Longrightarrow> exists_path st' p"
  by (auto simp: writeTextFile_def exists_path_def split: option.splits node.splits)

lemma fetch_body_store:
  assumes "fetch_body e u fp hs i fresh w1 = (r, w')"
  shows "files w' = files w1 \<or>
         (\<exists>body st3. open_and_pipe (files w1) fp body = Inr st3 \<and>
            (files w' = st3 \<or>
             (\<exists>txt st4. writeTextFile st3 (fp @ ''.json'') txt = Inr st4 \<and> files w' = st4)))"
proof -
  obtain gr w2 where sf: "sendFetch e u \<lparr> fo_method = None, fo_headers = hs, fo_validateStatus = False \<rparr> w1 = (gr, w2)"
    by (cases "sendFetch e u \<lparr> fo_method = None, fo_headers = hs, fo_validateStatus = False \<rparr> w1")
  have f2: "files w2 = files w1" using sendFetch_files[OF sf] .
  show ?thesis
  proof (cases gr)
    case (Inl err)
    then show ?thesis using assms sf f2 by (auto simp: fetch_body_def Let_def)
  next
    case (Inr res)
    show ?thesis
    proof (cases "400 \<le> rs_status res")
      case True
      then show ?thesis using assms sf f2 Inr by (auto simp: fetch_body_def Let_def)
    next
      case False
      show ?thesis
      proof (cases "open_and_pipe (files w2) fp (rs_body res)")
        case (Inl err)
        then show ?thesis using assms sf f2 Inr False by (auto simp: fetch_body_def Let_def)
      next
        case op: (Inr st3)
        show ?thesis
        proof (cases "if rs_body res = None then None else pipe_failure e res")
          case (Some err)
          then have "files w' = st3"
            using assms sf Inr False op by (auto simp: fetch_body_def Let_def)
          then show ?thesis using op f2 by auto
        next
          case piped: None
          show ?thesis
          proof (cases "if rs_body res = None then None else close_piped e")
            case (Some err)
            then have "files w' = st3"
              using assms sf Inr False op piped by (auto simp: fetch_body_def Let_def)
            then show ?thesis using op f2 by auto
          next
            case None
            show ?thesis
            proof (cases "writeTextFile st3 (fp @ ''.json'')
                            (stringify_info e (case fresh of Str t \<Rightarrow> i\<lparr> etag := Some t \<rparr> | _ \<Rightarrow> i))")
              case (Inl err)
              then have "files w' = st3"
                using assms sf Inr False op piped None by (auto simp: fetch_body_def Let_def)
              then show ?thesis using op f2 by auto
            next
              case wr: (Inr st4)
              then have "files w' = st4"
                using assms sf Inr False op piped None by (auto simp: fetch_body_def Let_def)
              then show ?thesis using op wr f2 by auto
            qed
          qed
        qed
      qed
    qed
  qed
qed

lemma fetch_body_frame:
  assumes "fetch_body e u fp hs i fresh w1 = (r, w')" "p \<noteq> fp" "p \<noteq> fp @ ''.json''"
  shows "files w' p = files w1 p"
  using fetch_body_store[OF assms(1)] assms(2,3)
  by (metis open_and_pipe_frame writeTextFile_frame)

lemma fetch_body_keeps:
  assumes "fetch_body e u fp hs i fresh w1 = (r, w')" "exists_path (files w1) p"
  shows "exists_path (files w') p"
  using fetch_body_store[OF assms(1)] assms(2)
  by (metis open_and_pipe_keeps writeTextFile_keeps)

lemma download_frame:
  assumes "download e u fp hs w = (r, w')" "p \<noteq> fp" "p \<noteq> fp @ ''.json''"
  shows "files w' p = files w p"
proof -
  obtain hr w1 where sf: "sendFetch e u \<lparr> fo_method = Some ''HEAD'', fo_headers = hs, fo_validateStatus = False \<rparr> w = (hr, w1)"
    by (cases "sendFetch e u \<lparr> fo_method = Some ''HEAD'', fo_headers = hs, fo_validateStatus = False \<rparr> w")
  have f1: "files w1 = files w" using sendFetch_files[OF sf] .
  show ?thesis
    using assms sf f1 fetch_body_frame[of e u fp hs _ "head_etag hr" w1 r w' p]
    by (auto simp: download_def split: option.splits if_splits)
qed

lemma download_keeps:
  assumes "download e u fp hs w = (r, w')" "exists_path (files w) p"
  shows "exists_path (files w') p"
proof -
  obtain hr w1 where sf: "sendFetch e u \<lparr> fo_method = Some ''HEAD'', fo_headers = hs, fo_validateStatus = False \<rparr> w = (hr, w1)"
    by (cases "sendFetch e u \<lparr> fo_method = Some ''HEAD'', fo_headers = hs, fo_validateStatus = False \<rparr> w")
  have f1: "files w1 = files w" using sendFetch_files[OF sf] .
  show ?thesis
    using assms sf f1 fetch_body_keeps[of e u fp hs _ "head_etag hr" w1 r w' p]
    by (auto simp: download_def split: option.splits if_splits)
qed

text \<open>
  C10. When \<^verbatim>\<open>download\<close> fetches the body (the stored etag and the one of the \<^verbatim>\<open>HEAD\<close>
  response differ) into a \<^verbatim>\<open>filePath\<close> that holds a file, and the \<^verbatim>\<open>GET\<close> succeeds with a
  body, the file is opened without truncation and the body is written from offset 0: the
  file then holds the body followed by what the old content had beyond the body's
  length. So whenever the old file was longer than the body, the file on disk is not
  the fetched body.
\<close>

theorem download_writes_over_existing:
  assumes "files w filePath = Some (File old)"
    and "read_info e (files w) (filePath @ ''.json'') = Some i"
    and "sendFetch e u \<lparr> fo_method = Some ''HEAD'', fo_headers = hs, fo_validateStatus = False \<rparr> w = (headResponse, w1)"
    and "\<not> same_etag (etag i) (head_etag headResponse)"
    and "fetch e (get_request u hs) = Inr res"
    and "rs_status res < 400"
    and "rs_body res = Some body"
  shows "\<exists>r w'. download e u filePath hs w = (r, w')
            \<and> requests w' = requests w @ [head_request u hs, get_request u hs]
            \<and> files w' filePath = Some (File (body @ drop (length body) old))
            \<and> (length body < length old \<longrightarrow> files w' filePath \<noteq> Some (File body))"
proof -
  obtain gr w2 where sf: "sendFetch e u \<lparr> fo_method = None, fo_headers = hs, fo_validateStatus = False \<rparr> w1 = (gr, w2)"
    by (cases "sendFetch e u \<lparr> fo_method = None, fo_headers = hs, fo_validateStatus = False \<rparr> w1")
  have gr: "gr = Inr res"
    using sendFetch_plain_result[of "\<lparr> fo_method = None, fo_headers = hs, fo_validateStatus = False \<rparr>" e u w1] sf assms(5)
    by (simp add: get_request_def)
  have f1: "files w1 = files w" using sendFetch_files[OF assms(3)] .
  have f2: "files w2 = files w" using sendFetch_files[OF sf] f1 by simp
  have rq: "requests w2 = requests w @ [head_request u hs, get_request u hs]"
    using sendFetch_requests[OF assms(3)] sendFetch_requests[OF sf]
    by (simp add: head_request_def get_request_def)
  define st3 where "st3 = (files w)(filePath \<mapsto> File (body @ drop (length body) old))"
  have op: "open_and_pipe (files w2) filePath (rs_body res) = Inr st3"
    using assms(1,7) f2 by (simp add: open_and_pipe_def pipe_over_def st3_def)
  have st3_fp: "st3 filePath = Some (File (body @ drop (length body) old))"
    by (simp add: st3_def)
  obtain r w' where fb: "fetch_body e u filePath hs i (head_etag headResponse) w1 = (r, w')"
    by (cases "fetch_body e u filePath hs i (head_etag headResponse) w1")
  have w': "requests w' = requests w2 \<and> files w' filePath = st3 filePath"
    using fb sf gr assms(6) op
    by (auto simp: fetch_body_def Let_def split: sum.splits option.splits if_splits
        dest: writeTextFile_frame)
  have dl: "download e u filePath hs w = (r, w')"
    using assms(2,3,4) fb by (simp add: download_def)
  have "length body < length old \<Longrightarrow> body @ drop (length body) old \<noteq> body"
    by simp
  then show ?thesis using dl w' rq st3_fp by auto
qed

theorem download_writes_over_existing_witness:
  "\<exists>r w'. download (sample_env (serving [(''etag'', ''v2'')] ''fresh'')) ''https://example.com/t'' ''/cache/t.tar.gz'' None sample_world = (r, w')
      \<and> requests w' = [head_request ''https://example.com/t'' None, get_request ''https://example.com/t'' None]
      \<and> files w' ''/cache/t.tar.gz'' = Some (File ''fresh56789'')
      \<and> files w' ''/cache/t.tar.gz'' \<noteq> Some (File ''fresh'')"
proof -
  let ?e = "sample_env (serving [(''etag'', ''v2'')] ''fresh'')"
  let ?res = "\<lparr> rs_status = 200, rs_statusText = ''OK'', rs_headers = [(''etag'', ''v2'')], rs_body = Some ''fresh'' \<rparr>"
  have a: "files sample_world ''/cache/t.tar.gz'' = Some (File ''0123456789'')"
    by (simp add: sample_world_def)
  have b: "read_info ?e (files sample_world) (''/cache/t.tar.gz'' @ ''.json'') = Some \<lparr> etag = Some ''v1'' \<rparr>"
    by (simp add: read_info_def sample_world_def sample_env_def sample_parse_info_def startsWith_def)
  have c: "sendFetch ?e ''https://example.com/t'' \<lparr> fo_method = Some ''HEAD'', fo_headers = None, fo_validateStatus = False \<rparr> sample_world
            = (Inr ?res, sample_world\<lparr> requests := requests sample_world @ [head_request ''https://example.com/t'' None] \<rparr>)"
    by (simp add: sendFetch_def sample_env_def serving_def head_request_def Let_def)
  have he: "head_etag (Inr ?res) = Str ''v2''"
    by code_simp
  have d: "\<not> same_etag (etag \<lparr> etag = Some ''v1'' \<rparr>) (head_etag (Inr ?res))"
    by (simp add: he same_etag_def)
  have g: "fetch ?e (get_request ''https://example.com/t'' None) = Inr ?res"
    by (simp add: sample_env_def serving_def)
  show ?thesis
    using download_writes_over_existing[OF a b c d g, of "''fresh''"]
    by (simp add: sample_world_def)
qed

text \<open>A call of \<^verbatim>\<open>download\<close> that fails has written nothing, but for three cases in which
  the tarball is written before the failure: the stream of the body breaks, the runtime
  raises when the piped file is closed, or the sidecar's path is a directory.\<close>

lemma writeTextFile_error: "writeTextFile st p text = Inl err \<Longrightarrow> st p = Some Dir"
  by (auto simp: writeTextFile_def split: option.splits node.splits)

lemma fetch_body_error_store:
  assumes "fetch_body e u fp hs i fresh w1 = (Inl err, w')"
    and "files w1 (fp @ ''.json'') \<noteq> Some Dir"
    and "close_piped e = None"
    and "\<And>res. pipe_failure e res = None"
  shows "files w' = files w1"
proof -
  obtain gr w2 where sf: "sendFetch e u \<lparr> fo_method = None, fo_headers = hs, fo_validateStatus = False \<rparr> w1 = (gr, w2)"
    by (cases "sendFetch e u \<lparr> fo_method = None, fo_headers = hs, fo_validateStatus = False \<rparr> w1")
  have f2: "files w2 = files w1" using sendFetch_files[OF sf] .
  show ?thesis
  proof (cases gr)
    case (Inl x)
    then show ?thesis using assms(1) sf f2 by (auto simp: fetch_body_def Let_def)
  next
    case (Inr res)
    show ?thesis
    proof (cases "400 \<le> rs_status res")
      case True
      then show ?thesis using assms(1) sf f2 Inr by (auto simp: fetch_body_def Let_def)
    next
      case False
      show ?thesis
      proof (cases "open_and_pipe (files w2) fp (rs_body res)")
        case (Inl x)
        then show ?thesis using assms(1) sf f2 Inr False by (auto simp: fetch_body_def Let_def)
      next
        case op: (Inr st3)
        have "st3 (fp @ ''.json'') = files w1 (fp @ ''.json'')"
          using open_and_pipe_frame[OF op, of "fp @ ''.json''"] f2 by simp
        then have nd: "st3 (fp @ ''.json'') \<noteq> Some Dir" using assms(2) by simp
        show ?thesis
        proof (cases "writeTextFile st3 (fp @ ''.json'')
                        (stringify_info e (case fresh of Str t \<Rightarrow> i\<lparr> etag := Some t \<rparr> | _ \<Rightarrow> i))")
          case (Inl x)
          then show ?thesis using writeTextFile_error[OF Inl] nd by simp
        next
          case (Inr st4)
          have cl: "(if rs_body res = None then None else close_piped e) = None"
            using assms(3) by simp
          have pf: "(if rs_body res = None then None else pipe_failure e res) = None"
            using assms(4) by simp
          show ?thesis using assms(1) sf False op Inr \<open>gr = Inr res\<close>
            by (simp add: fetch_body_def Let_def cl pf)
        qed
      qed
    qed
  qed
qed

lemma download_error_store:
  assumes "download e u fp hs w = (Inl err, w')"
    and "files w (fp @ ''.json'') \<noteq> Some Dir"
    and "close_piped e = None"
    and "\<And>res. pipe_failure e res = None"
  shows "files w' = files w"
proof -
  obtain hr w1 where sf: "sendFetch e u \<lparr> fo_method = Some ''HEAD'', fo_headers = hs, fo_validateStatus = False \<rparr> w = (hr, w1)"
    by (cases "sendFetch e u \<lparr> fo_method = Some ''HEAD'', fo_headers = hs, fo_validateStatus = False \<rparr> w")
  have f1: "files w1 = files w" using sendFetch_files[OF sf] .
  show ?thesis
  proof (cases "read_info e (files w) (fp @ ''.json'')")
    case None
    then show ?thesis using assms(1) sf f1 by (auto simp: download_def)
  next
    case (Some i)
    show ?thesis
    proof (cases "same_etag (etag i) (head_etag hr) \<and> exists_path (files w1) fp")
      case True
      then show ?thesis using assms(1) sf Some by (auto simp: download_def)
    next
      case False
      then have "fetch_body e u fp hs i (head_etag hr) w1 = (Inl err, w')"
        using assms(1) sf Some by (auto simp: download_def)
      then show ?thesis
        using fetch_body_error_store[of e u fp hs i "head_etag hr" w1 err w'] assms(2,3,4) f1
        by simp
    qed
  qed
qed

section \<open>The JSON-fetch path and the providers that use it\<close>

lemma sendFetch_checked_result:
  "fo_validateStatus opts \<Longrightarrow> fetch e (make_request u opts) = Inr res \<Longrightarrow> rs_status res < 400 \<Longrightarrow>
   fst (sendFetch e u opts w) = Inr res"
  by (auto simp: sendFetch_def Let_def split: sum.splits if_splits)

lemma checked_info_invalid:
  assumes "parse_template e (case rs_body res of None \<Rightarrow> [] | Some b \<Rightarrow> b) = JsonValue i"
    and "\<not> truthy (tar i) \<or> \<not> truthy (name i)"
  shows "checked_info e u res = Inl (InvalidTemplateInfo u)"
  using assms by (auto simp: checked_info_def)

lemma checked_info_has_both:
  "checked_info e u res = Inr (Some i) \<Longrightarrow> truthy (tar i) \<and> truthy (name i)"
  by (auto simp: checked_info_def split: parsed.splits if_splits)

lemma checked_info_never_null: "checked_info e u res \<noteq> Inr None"
  by (auto simp: checked_info_def split: parsed.splits if_splits)

text \<open>The two places that call the JSON-fetch path outside a \<^verbatim>\<open>try\<close>: its error is the
  provider's error. A response below status 400 whose JSON value lacks a truthy \<^verbatim>\<open>tar\<close>
  or \<^verbatim>\<open>name\<close> makes \<^verbatim>\<open>_httpJSON\<close> and a registry provider fail with the error for an invalid
  template info.\<close>

lemma httpJSON_invalid:
  assumes "fetch e (make_request input \<lparr> fo_method = None, fo_headers = Some [(''authorization'', bearer a)], fo_validateStatus = True \<rparr>) = Inr res"
    and "rs_status res < 400"
    and "parse_template e (case rs_body res of None \<Rightarrow> [] | Some b \<Rightarrow> b) = JsonValue i"
    and "\<not> truthy (tar i) \<or> \<not> truthy (name i)"
  shows "fst (httpJSON e input a w) = Inl (InvalidTemplateInfo input)"
proof -
  let ?o = "\<lparr> fo_method = None, fo_headers = Some [(''authorization'', bearer a)], fo_validateStatus = True \<rparr>"
  obtain r w1 where sf: "sendFetch e input ?o w = (r, w1)" by (cases "sendFetch e input ?o w")
  have "r = Inr res"
    using sendFetch_checked_result[of ?o e input res w] assms(1,2) sf by simp
  then show ?thesis
    using sf checked_info_invalid[OF assms(3,4)] by (simp add: httpJSON_def)
qed

lemma registryProvider_invalid:
  assumes "registryURL = (case ep of None \<Rightarrow> DEFAULT_REGISTRY | Some x \<Rightarrow> x) @ ''/'' @ input @ ''.json''"
    and "fetch e (make_request registryURL \<lparr> fo_method = None, fo_headers = Some [(''authorization'', bearer built)], fo_validateStatus = False \<rparr>) = Inr res"
    and "rs_status res < 400"
    and "parse_template e (case rs_body res of None \<Rightarrow> [] | Some b \<Rightarrow> b) = JsonValue i"
    and "\<not> truthy (tar i) \<or> \<not> truthy (name i)"
  shows "fst (registryProvider e ep built input a w) = Inl (InvalidTemplateInfo registryURL)"
proof -
  let ?o = "\<lparr> fo_method = None, fo_headers = Some [(''authorization'', bearer built)], fo_validateStatus = False \<rparr>"
  obtain r w1 where sf: "sendFetch e registryURL ?o w = (r, w1)" by (cases "sendFetch e registryURL ?o w")
  have "r = Inr res"
    using sendFetch_plain_result[of ?o e registryURL w] assms(2) sf by simp
  then show ?thesis
    using sf checked_info_invalid[OF assms(4,5)] assms(1,3)
    by (simp add: registryProvider_def Let_def)
qed

lemma http_json_suffix:
  "endsWith input ''.json'' \<Longrightarrow> http e input a w = httpJSON e input a w"
  by (simp add: http_def)

text \<open>The scenario of a registry provider \<^verbatim>\<open>themes\<close> whose document for \<^verbatim>\<open>test\<close> has a
  name and no \<^verbatim>\<open>tar\<close>, and the same document behind an HTTP input that ends in \<^verbatim>\<open>.json\<close>:
  the whole call fails, with the provider's error wrapped.\<close>

lemma registry_scenario:
  "fst (downloadTemplate (sample_env (serving [] ''name:x'')) ''themes:test''
          (no_options\<lparr> custom_providers :=
             (\<lambda>n. if n = ''themes'' then Some (Registry (Some ''https://r.example'') None)
                  else None) \<rparr>)
          empty_world)
     = Inl (ProviderFailed ''themes'' (InvalidTemplateInfo ''https://r.example/test.json''))"
  by code_simp

lemma http_json_scenario:
  "fst (downloadTemplate (sample_env (serving [] ''name:x'')) ''https://r.example/test.json''
          no_options empty_world)
     = Inl (ProviderFailed ''https'' (InvalidTemplateInfo ''https://r.example/test.json''))"
  by code_simp

text \<open>
  C8, the behaviour of the code on the third way into the JSON-fetch path. For an HTTP
  input that does not end in \<^verbatim>\<open>.json\<close> and whose \<^verbatim>\<open>HEAD\<close> response has a JSON content type,
  \<^verbatim>\<open>_httpJSON\<close> is called inside the \<^verbatim>\<open>try\<close> of the HTTP provider. When the JSON body lacks
  \<^verbatim>\<open>tar\<close> or \<^verbatim>\<open>name\<close>, \<^verbatim>\<open>_httpJSON\<close> fails with the error for an invalid template info, the
  \<^verbatim>\<open>catch\<close> takes it, and the provider returns the template of a direct tarball, whose
  \<^verbatim>\<open>tar\<close> is the input URL itself: the resolution does not fail.
\<close>

theorem http_content_type_json_swallows:
  assumes "\<not> endsWith input ''.json''"
    and "parse_url e input = Some (href, pathname)"
    and "fetch e (make_request href \<lparr> fo_method = Some ''HEAD'', fo_headers = Some [(''authorization'', bearer a)], fo_validateStatus = True \<rparr>) = Inr head"
    and "rs_status head < 400"
    and "includes_str (or_else (header_get head ''content-type'') []) ''application/json''"
    and "fetch e (make_request input \<lparr> fo_method = None, fo_headers = Some [(''authorization'', bearer a)], fo_validateStatus = True \<rparr>) = Inr res"
    and "rs_status res < 400"
    and "parse_template e (case rs_body res of None \<Rightarrow> [] | Some b \<Rightarrow> b) = JsonValue i"
    and "\<not> truthy (tar i) \<or> \<not> truthy (name i)"
  shows "fst (httpJSON e input a w1) = Inl (InvalidTemplateInfo input)
       \<and> fst (http e input a w) = Inr (Some (direct_template (basename e pathname) href a))
       \<and> tar (direct_template (basename e pathname) href a) = Some href"
proof -
  let ?h = "\<lparr> fo_method = Some ''HEAD'', fo_headers = Some [(''authorization'', bearer a)], fo_validateStatus = True \<rparr>"
  obtain r wh where sf: "sendFetch e href ?h w = (r, wh)" by (cases "sendFetch e href ?h w")
  have r: "r = Inr head"
    using sendFetch_checked_result[of ?h e href head w] assms(3,4) sf by simp
  obtain rj wj where hj: "httpJSON e input a wh = (rj, wj)" by (cases "httpJSON e input a wh")
  have rj: "rj = Inl (InvalidTemplateInfo input)"
    using httpJSON_invalid[OF assms(6-9), of wh] hj by simp
  have "fst (http e input a w) = Inr (Some (direct_template (basename e pathname) href a))"
    using assms(1,2,5) sf r hj rj by (simp add: http_def)
  then show ?thesis
    using httpJSON_invalid[OF assms(6-9), of w1] by (simp add: direct_template_def)
qed

theorem http_content_type_json_swallows_witness:
  "fst (httpJSON (sample_env (serving [(''content-type'', ''application/json'')] ''name:x'')) ''https://example.com/template'' None \<lparr> files = (\<lambda>p. None), requests = [] \<rparr>)
     = Inl (InvalidTemplateInfo ''https://example.com/template'')
   \<and> fst (http (sample_env (serving [(''content-type'', ''application/json'')] ''name:x'')) ''https://example.com/template'' None \<lparr> files = (\<lambda>p. None), requests = [] \<rparr>)
     = Inr (Some \<lparr> name = Some ''template-https://'', tar = Some ''https://example.com/template'', version = Some [], tsubdir = Some [],
                    url = None, defaultDir = Some ''template'', headers = Some [(''Authorization'', None)] \<rparr>)"
proof -
  let ?e = "sample_env (serving [(''content-type'', ''application/json'')] ''name:x'')"
  let ?res = "\<lparr> rs_status = 200, rs_statusText = ''OK'', rs_headers = [(''content-type'', ''application/json'')], rs_body = Some ''name:x'' \<rparr>"
  let ?i = "\<lparr> name = Some ''x'', tar = None, version = None, tsubdir = None, url = None, defaultDir = None, headers = None \<rparr>"
  have a1: "\<not> endsWith ''https://example.com/template'' ''.json''" by code_simp
  have a2: "parse_url ?e ''https://example.com/template'' = Some (''https://example.com/template'', ''/template'')"
    by code_simp
  have a3: "fetch ?e rq = Inr ?res" for rq by (simp add: sample_env_def serving_def)
  have a5: "includes_str (or_else (header_get ?res ''content-type'') []) ''application/json''"
    by code_simp
  have a8: "parse_template ?e (case rs_body ?res of None \<Rightarrow> [] | Some b \<Rightarrow> b) = JsonValue ?i"
    by (simp add: sample_env_def sample_parse_template_def)
  have a9: "\<not> truthy (tar ?i) \<or> \<not> truthy (name ?i)" by (simp add: truthy_def)
  have bn: "basename ?e ''/template'' = ''template''" by code_simp
  have dt: "direct_template ''template'' ''https://example.com/template'' None = 
     \<lparr> name = Some ''template-https://'', tar = Some ''https://example.com/template'', version = Some [], tsubdir = Some [],
                    url = None, defaultDir = Some ''template'', headers = Some [(''Authorization'', None)] \<rparr>"
    by code_simp
  show ?thesis
    using http_content_type_json_swallows[OF a1 a2 a3 _ a5 a3 _ a8 a9, of None "\<lparr> files = (\<lambda>p. None), requests = [] \<rparr>" "\<lparr> files = (\<lambda>p. None), requests = [] \<rparr>"]
    by (simp add: bn dt)
qed

section \<open>The orchestrator: what each stage does to the store\<close>

text \<open>Resolving a template sends requests at most; it never writes the store.\<close>

lemma httpJSON_files: "httpJSON e input a w = (r, w') \<Longrightarrow> files w' = files w"
  by (auto simp: httpJSON_def split: prod.splits sum.splits dest: sendFetch_files)

lemma registryProvider_files:
  "registryProvider e ep built input a w = (r, w') \<Longrightarrow> files w' = files w"
  by (auto simp: registryProvider_def Let_def split: prod.splits sum.splits if_splits
      dest: sendFetch_files)

lemma http_files: "http e input a w = (r, w') \<Longrightarrow> files w' = files w"
proof (cases "endsWith input ''.json''")
  case True
  then show "http e input a w = (r, w') \<Longrightarrow> files w' = files w"
    using httpJSON_files by (simp add: http_def)
next
  case False
  assume h: "http e input a w = (r, w')"
  show "files w' = files w"
  proof (cases "parse_url e input")
    case None
    then show ?thesis using h False by (simp add: http_def)
  next
    case (Some hp)
    obtain href pathname where hp: "hp = (href, pathname)" by (cases hp)
    let ?o = "\<lparr> fo_method = Some ''HEAD'', fo_headers = Some [(''authorization'', bearer a)], fo_validateStatus = True \<rparr>"
    obtain hr w1 where sf: "sendFetch e href ?o w = (hr, w1)" by (cases "sendFetch e href ?o w")
    have f1: "files w1 = files w" using sendFetch_files[OF sf] .
    obtain rj wj where hj: "httpJSON e input a w1 = (rj, wj)" by (cases "httpJSON e input a w1")
    have fj: "files wj = files w" using httpJSON_files[OF hj] f1 by simp
    show ?thesis
      using h False Some hp sf f1 hj fj
      by (auto simp: http_def Let_def split: sum.splits if_splits)
  qed
qed

lemma github_files: "github e input a w = (r, w') \<Longrightarrow> files w' = files w"
  by (auto simp: github_def Let_def split: option.splits)

lemma gitlab_files: "gitlab e input a w = (r, w') \<Longrightarrow> files w' = files w"
  by (auto simp: gitlab_def Let_def split: option.splits)

lemma bitbucket_files: "bitbucket e input a w = (r, w') \<Longrightarrow> files w' = files w"
  by (auto simp: bitbucket_def Let_def split: option.splits)

lemma sourcehut_files: "sourcehut e input a w = (r, w') \<Longrightarrow> files w' = files w"
  by (auto simp: sourcehut_def Let_def split: option.splits)

lemma providers_files:
  "providers e pn = Some p \<Longrightarrow> p src a w = (r, w') \<Longrightarrow> files w' = files w"
  using http_files github_files gitlab_files bitbucket_files sourcehut_files
  by (auto simp: providers_def split: if_splits)

lemma run_custom_files: "run_custom e c src a w = (r, w') \<Longrightarrow> files w' = files w"
  using registryProvider_files by (cases c) (auto simp: run_custom_def)

lemma registry_of_files:
  "registry_of e options = Some p \<Longrightarrow> p src a w = (r, w') \<Longrightarrow> files w' = files w"
  using registryProvider_files
  by (auto simp: registry_of_def split: option.splits registry_option.splits)

lemma find_provider_files:
  "find_provider e options pn = Some (Inr p) \<Longrightarrow> p src a w = (r, w') \<Longrightarrow> files w' = files w"
  using run_custom_files providers_files registry_of_files
  by (auto simp: find_provider_def split: option.splits)

lemma call_inherited_world: "call_inherited m pn src w = (r, w') \<Longrightarrow> w' = w"
  by (cases m) (auto simp: call_inherited_def)

lemma resolve_template_files:
  assumes "resolve_template e input options w = (r, w1)"
  shows "files w1 = files w"
proof -
  obtain pn src where ps: "provider_and_source input options = (pn, src)"
    by (cases "provider_and_source input options")
  show ?thesis
  proof (cases "find_provider e options pn")
    case None
    then show ?thesis using assms ps by (simp add: resolve_template_def)
  next
    case (Some found)
    show ?thesis
    proof (cases found)
      case (Inl m)
      then have "call_inherited m pn src w = (r, w1)"
        using assms ps Some by (simp add: resolve_template_def)
      then show ?thesis using call_inherited_world by blast
    next
      case (Inr p)
      obtain pr wp where run: "p src (auth_token options) w = (pr, wp)"
        by (cases "p src (auth_token options) w")
      have "find_provider e options pn = Some (Inr p)" using Some Inr by simp
      then have "files wp = files w" using find_provider_files run by blast
      then show ?thesis
        using assms ps Some Inr run
        by (auto simp: resolve_template_def split: sum.splits option.splits)
    qed
  qed
qed

lemma resolve_template_source:
  "resolve_template e input options w = (Inr (pn, src, t), w1) \<Longrightarrow>
   (pn, src) = provider_and_source input options"
  by (auto simp: resolve_template_def call_inherited_def
      split: prod.splits option.splits sum.splits inherited.splits)

text \<open>A call whose template does not resolve fails with the error of the resolution and
  has written nothing.\<close>

lemma downloadTemplate_unresolved:
  assumes "resolve_template e input (merge_options e options) w = (Inl err, w1)"
  shows "downloadTemplate e input options w = (Inl err, w1) \<and> files w1 = files w"
  using assms resolve_template_files[OF assms] by (simp add: downloadTemplate_def)

text \<open>Paths that lie in one another.\<close>

lemma startsWith_iff: "startsWith s p \<longleftrightarrow> (\<exists>x. s = p @ x)"
proof
  assume "startsWith s p"
  then have "s = p @ drop (length p) s"
    by (metis append_take_drop_id startsWith_def)
  then show "\<exists>x. s = p @ x" by blast
next
  assume "\<exists>x. s = p @ x"
  then show "startsWith s p" by (auto simp: startsWith_def)
qed

lemma under_trans: "under a b \<Longrightarrow> under b c \<Longrightarrow> under a c"
  by (auto simp: under_def startsWith_iff)

lemma ancestors_under:
  assumes "a \<in> set (ancestors d)"
  shows "under a d"
proof -
  obtain i where i: "i < length d" "d ! i = CHR ''/''" "a = take i d"
    using assms by (auto simp: ancestors_def)
  have "take (Suc i) d = a @ ''/''"
    using i by (simp add: take_Suc_conv_app_nth)
  moreover have "length (a @ ''/'') = Suc i" using i by simp
  ultimately have "startsWith d (a @ ''/'')"
    unfolding startsWith_def by metis
  then show ?thesis by (simp add: under_def)
qed

text \<open>\<^verbatim>\<open>ensureDir\<close> changes nothing that is there: it adds the directory and those of its
  ancestors that are missing.\<close>

lemma ensureDir_old: "ensureDir st d = Inr st' \<Longrightarrow> exists_path st p \<Longrightarrow> st' p = st p"
  by (auto simp: ensureDir_def exists_path_def split: option.splits node.splits list.splits)

lemma ensureDir_new:
  assumes "ensureDir st d = Inr st'" "st' p \<noteq> st p"
  shows "st p = None \<and> st' p = Some Dir \<and> under p d"
proof -
  have "st p = None \<and> st' p = Some Dir \<and> (p = d \<or> p \<in> set (ancestors d))"
    using assms
    by (auto simp: ensureDir_def split: option.splits node.splits list.splits if_splits)
  then show ?thesis using ancestors_under by (auto simp: under_def)
qed

lemma ensureDir_keeps: "ensureDir st d = Inr st' \<Longrightarrow> exists_path st p \<Longrightarrow> exists_path st' p"
  using ensureDir_old[of st d st' p] by (simp add: exists_path_def)

text \<open>The tarball stage changes nothing that is there but the tarball and its sidecar,
  removes nothing, and adds at most the tarball, the sidecar, the cache directory of the
  tarball and ancestors of that directory.\<close>

lemma download_step_changes:
  assumes "download_step e options tp t w = (r, w')"
    and "files w' p \<noteq> files w p"
  shows "p = tp \<or> p = tp @ ''.json''
         \<or> (files w p = None \<and> files w' p = Some Dir \<and> under p (dirname e tp))"
proof (cases "ensureDir (files w) (dirname e tp)")
  case (Inl err)
  then show ?thesis using assms by (simp add: download_step_def)
next
  case (Inr st1)
  obtain dr wd where dl: "download e (tar_url t) tp (Some (download_headers options t)) (w\<lparr> files := st1 \<rparr>) = (dr, wd)"
    by (cases "download e (tar_url t) tp (Some (download_headers options t)) (w\<lparr> files := st1 \<rparr>)")
  have w': "w' = wd"
    using assms(1) Inr dl by (auto simp: download_step_def split: sum.splits if_splits)
  show ?thesis
  proof (cases "p = tp \<or> p = tp @ ''.json''")
    case True
    then show ?thesis by blast
  next
    case False
    then have same: "files wd p = st1 p" using download_frame[OF dl, of p] by simp
    then have "st1 p \<noteq> files w p" using assms(2) w' by simp
    then have "files w p = None \<and> st1 p = Some Dir \<and> under p (dirname e tp)"
      using ensureDir_new[OF Inr] by blast
    then show ?thesis using same w' by simp
  qed
qed

lemma download_step_keeps:
  assumes "download_step e options tp t w = (r, w')" "exists_path (files w) p"
  shows "exists_path (files w') p"
proof (cases "ensureDir (files w) (dirname e tp)")
  case (Inl err)
  then show ?thesis using assms by (simp add: download_step_def)
next
  case (Inr st1)
  obtain dr wd where dl: "download e (tar_url t) tp (Some (download_headers options t)) (w\<lparr> files := st1 \<rparr>) = (dr, wd)"
    by (cases "download e (tar_url t) tp (Some (download_headers options t)) (w\<lparr> files := st1 \<rparr>)")
  have "exists_path st1 p" using ensureDir_keeps[OF Inr assms(2)] .
  then have "exists_path (files wd) p" using download_keeps[OF dl, of p] by simp
  moreover have "w' = wd" using assms(1) Inr dl by (auto simp: download_step_def split: sum.splits if_splits)
  ultimately show ?thesis by simp
qed

lemma require_tarball_world: "snd (require_tarball tp off w) = w"
  by (simp add: require_tarball_def)

lemma acquire_offline:
  "offline options \<or> (preferOffline options \<and> exists_path (files w) tp) \<Longrightarrow>
   acquire e options tp t w = require_tarball tp True w"
  by (simp add: acquire_def)

lemma acquire_online:
  "\<not> (offline options \<or> (preferOffline options \<and> exists_path (files w) tp)) \<Longrightarrow>
   acquire e options tp t w =
     (case download_step e options tp t w of
        (Inl err, w2) \<Rightarrow> (Inl err, w2)
      | (Inr off, w2) \<Rightarrow> require_tarball tp off w2)"
  by (auto simp: acquire_def)

lemma acquire_world:
  assumes "acquire e options tp t w = (r, w')"
  shows "w' = w \<or> (\<exists>sr. download_step e options tp t w = (sr, w'))"
proof (cases "offline options \<or> (preferOffline options \<and> exists_path (files w) tp)")
  case True
  then have "acquire e options tp t w = require_tarball tp True w"
    by (rule acquire_offline)
  then have "w' = w" using assms require_tarball_world[of tp True w] by (metis snd_conv)
  then show ?thesis by simp
next
  case False
  obtain sr ws where st: "download_step e options tp t w = (sr, ws)"
    by (cases "download_step e options tp t w")
  have "w' = ws"
  proof (cases sr)
    case (Inl err)
    then show ?thesis using assms acquire_online[OF False, of e t] st by simp
  next
    case (Inr off)
    then have "acquire e options tp t w = require_tarball tp off ws"
      using acquire_online[OF False, of e t] st by simp
    then show ?thesis using assms require_tarball_world[of tp off ws] by (metis snd_conv)
  qed
  then show ?thesis using st by blast
qed

lemma acquire_changes:
  assumes "acquire e options tp t w = (r, w')"
    and "files w' p \<noteq> files w p"
  shows "p = tp \<or> p = tp @ ''.json''
         \<or> (files w p = None \<and> files w' p = Some Dir \<and> under p (dirname e tp))"
  using acquire_world[OF assms(1)] assms(2) download_step_changes by blast

lemma acquire_keeps:
  assumes "acquire e options tp t w = (r, w')" "exists_path (files w) p"
  shows "exists_path (files w') p"
  using acquire_world[OF assms(1)] assms(2) download_step_keeps by blast

lemma place_conflict:
  assumes "\<not> force options" "\<not> forceClean options"
    and "exists_path (files w) (extractPath e options t)"
  shows "place e options tp t w = (Inl (DestinationExists (extractPath e options t)), w)"
  using assms by (simp add: place_def)

lemma merge_options_flags:
  "force (merge_options e options) = force options"
  "forceClean (merge_options e options) = forceClean options"
  "offline (merge_options e options) = offline options"
  "preferOffline (merge_options e options) = preferOffline options"
  "extractPath e (merge_options e options) t = extractPath e options t"
  by (simp_all add: merge_options_def extractPath_def)

section \<open>The orchestrator: conflict, cache fallback and the source of the result\<close>

text \<open>
  C1, as amended. For every call whose template resolves, whose destination directory
  exists and whose options set neither \<^verbatim>\<open>force\<close> nor \<^verbatim>\<open>forceClean\<close>, the call fails. The
  error is the one of the tarball stage when that stage fails (the download error, or
  \<^verbatim>\<open>Tarball not found\<close>), and \<^verbatim>\<open>Destination ... already exists\<close> in every other case. Whatever
  the error, the call removes nothing, and the store differs from the one before at most
  at the cached tarball, at its sidecar, and at the cache directory and ancestors of it
  where they were missing and are now directories. So when the cache directory, the
  tarball and the sidecar do not lie at or under the destination, nothing at or under
  the destination is removed, changed or added. This is so for every world the call
  starts in, so also for the second of two calls.
\<close>

theorem downloadTemplate_conflict:
  assumes "\<not> force options" "\<not> forceClean options"
    and "resolve_template e input (merge_options e options) w = (Inr (pn, src, t), w1)"
    and "exists_path (files w) (extractPath e options t)"
  shows "\<exists>err w'. downloadTemplate e input options w = (Inl err, w')
           \<and> err = (case acquire e (merge_options e options) (tarPath e pn t) t w1 of
                      (Inl early, w2) \<Rightarrow> early
                    | (Inr off, w2) \<Rightarrow> DestinationExists (extractPath e options t))
           \<and> (\<forall>p. exists_path (files w) p \<longrightarrow> exists_path (files w') p)
           \<and> (\<forall>p. files w' p \<noteq> files w p \<longrightarrow>
                  p = tarPath e pn t \<or> p = tarPath e pn t @ ''.json''
                  \<or> (files w p = None \<and> files w' p = Some Dir \<and> under p (dirname e (tarPath e pn t))))
           \<and> (\<not> under (extractPath e options t) (dirname e (tarPath e pn t))
              \<and> \<not> under (extractPath e options t) (tarPath e pn t)
              \<and> \<not> under (extractPath e options t) (tarPath e pn t @ ''.json'')
                \<longrightarrow> (\<forall>p. under (extractPath e options t) p \<longrightarrow> files w' p = files w p))"
proof -
  let ?o = "merge_options e options"
  let ?tp = "tarPath e pn t"
  let ?dest = "extractPath e options t"
  have f1: "files w1 = files w" using resolve_template_files[OF assms(3)] .
  obtain ar w2 where ac: "acquire e ?o ?tp t w1 = (ar, w2)" by (cases "acquire e ?o ?tp t w1")
  have changes: "files w2 p \<noteq> files w p \<Longrightarrow>
      p = ?tp \<or> p = ?tp @ ''.json''
      \<or> (files w p = None \<and> files w2 p = Some Dir \<and> under p (dirname e ?tp))" for p
    using acquire_changes[OF ac, of p] f1 by simp
  have keeps: "exists_path (files w) p \<Longrightarrow> exists_path (files w2) p" for p
    using acquire_keeps[OF ac, of p] f1 by simp
  have apart: "\<not> under ?dest (dirname e ?tp) \<and> \<not> under ?dest ?tp \<and> \<not> under ?dest (?tp @ ''.json'')
      \<longrightarrow> (\<forall>p. under ?dest p \<longrightarrow> files w2 p = files w p)"
    using changes under_trans by blast
  have frame: "(\<forall>p. exists_path (files w) p \<longrightarrow> exists_path (files w2) p)
           \<and> (\<forall>p. files w2 p \<noteq> files w p \<longrightarrow>
                  p = ?tp \<or> p = ?tp @ ''.json''
                  \<or> (files w p = None \<and> files w2 p = Some Dir \<and> under p (dirname e ?tp)))
           \<and> (\<not> under ?dest (dirname e ?tp) \<and> \<not> under ?dest ?tp \<and> \<not> under ?dest (?tp @ ''.json'')
                \<longrightarrow> (\<forall>p. under ?dest p \<longrightarrow> files w2 p = files w p))"
    using keeps changes apart by blast
  show ?thesis
  proof (cases ar)
    case (Inl early)
    then have "downloadTemplate e input options w = (Inl early, w2)"
      using assms(3) ac by (simp add: downloadTemplate_def)
    then show ?thesis using ac Inl frame by simp
  next
    case (Inr off)
    have "exists_path (files w2) (extractPath e ?o t)"
      using keeps[OF assms(4)] by (simp add: merge_options_flags)
    then have "place e ?o ?tp t w2 = (Inl (DestinationExists (extractPath e ?o t)), w2)"
      using place_conflict[of ?o w2 e t ?tp] assms(1,2) by (simp add: merge_options_flags)
    then have "downloadTemplate e input options w = (Inl (DestinationExists ?dest), w2)"
      using assms(3) ac Inr by (simp add: downloadTemplate_def merge_options_flags)
    then show ?thesis using ac Inr frame by simp
  qed
qed

theorem downloadTemplate_conflict_witness:
  "fst (downloadTemplate (sample_env unreachable) ''gh:org/repo''
          (no_options\<lparr> opt_dir := Some ''out'' \<rparr>) cached_world)
     = Inl (DestinationExists ''/work/out'')
   \<and> files (snd (downloadTemplate (sample_env unreachable) ''gh:org/repo''
          (no_options\<lparr> opt_dir := Some ''out'' \<rparr>) cached_world)) ''/work/out/keep.txt''
     = Some (File ''mine'')
   \<and> files (snd (downloadTemplate (sample_env unreachable) ''gh:org/repo''
          (no_options\<lparr> opt_dir := Some ''out'' \<rparr>) cached_world)) ''/work/out/new.txt''
     = None"
proof -
  let ?e = "sample_env unreachable"
  let ?o = "no_options\<lparr> opt_dir := Some ''out'' \<rparr>"
  let ?w1 = "snd (resolve_template ?e ''gh:org/repo'' (merge_options ?e ?o) cached_world)"
  let ?dest = "extractPath ?e ?o org_repo_template"
  let ?tp = "tarPath ?e ''gh'' org_repo_template"
  have "fst (resolve_template ?e ''gh:org/repo'' (merge_options ?e ?o) cached_world)
          = Inr (''gh'', ''org/repo'', org_repo_template)"
    by code_simp
  then have res: "resolve_template ?e ''gh:org/repo'' (merge_options ?e ?o) cached_world
          = (Inr (''gh'', ''org/repo'', org_repo_template), ?w1)"
    by (metis prod.collapse)
  have flags: "\<not> force ?o" "\<not> forceClean ?o"
    by (simp_all add: no_options_def)
  have dest: "exists_path (files cached_world) ?dest"
    by code_simp
  have err: "(case acquire ?e (merge_options ?e ?o) ?tp org_repo_template ?w1 of
                (Inl early, w2) \<Rightarrow> early
              | (Inr off, w2) \<Rightarrow> DestinationExists ?dest)
             = DestinationExists ''/work/out''"
    by code_simp
  have apart: "\<not> under ?dest (dirname ?e ?tp) \<and> \<not> under ?dest ?tp \<and> \<not> under ?dest (?tp @ ''.json'')"
    by code_simp
  have inside: "under ?dest ''/work/out/keep.txt'' \<and> under ?dest ''/work/out/new.txt''"
    by code_simp
  have before: "files cached_world ''/work/out/keep.txt'' = Some (File ''mine'')
              \<and> files cached_world ''/work/out/new.txt'' = None"
    by (simp add: cached_world_def)
  show ?thesis
    using downloadTemplate_conflict[OF flags res dest] err apart inside before by auto
qed

text \<open>The claim as first stated promises the conflict error for every such call, and
  that what the destination holds is not modified. An offline call with an empty cache
  into an existing destination fails earlier, with \<^verbatim>\<open>Tarball not found\<close>. And a call whose
  destination holds the cache rewrites the tarball in it before it fails with the
  conflict error.\<close>

theorem downloadTemplate_conflict_counterexample:
  "exists_path (files destination_world) ''/work/out''
   \<and> fst (downloadTemplate (sample_env unreachable) ''gh:org/repo''
          (no_options\<lparr> opt_dir := Some ''out'', offline := True \<rparr>) destination_world)
     = Inl (TarballNotFound ''/home/u/.cache/giget/gh/org-repo/main.tar.gz'' True)
   \<and> exists_path (files home_world) ''/home/u''
   \<and> files home_world ''/home/u/.cache/giget/gh/org-repo/main.tar.gz'' = Some (File ''0123456789'')
   \<and> fst (downloadTemplate (sample_env (serving [(''etag'', ''v2'')] ''fresh'')) ''gh:org/repo''
          (no_options\<lparr> cwd := Some ''/home'', opt_dir := Some ''u'' \<rparr>) home_world)
     = Inl (DestinationExists ''/home/u'')
   \<and> files (snd (downloadTemplate (sample_env (serving [(''etag'', ''v2'')] ''fresh'')) ''gh:org/repo''
          (no_options\<lparr> cwd := Some ''/home'', opt_dir := Some ''u'' \<rparr>) home_world))
        ''/home/u/.cache/giget/gh/org-repo/main.tar.gz''
     = Some (File ''fresh56789'')"
  by code_simp

text \<open>The handler of the download step. When the download is attempted and \<^verbatim>\<open>download\<close>
  throws, the handler tests whether a tarball exists at the cache path. If it does, the
  error is dropped, \<^verbatim>\<open>options.offline\<close> becomes true and the call goes on to the extraction
  of that tarball; if it does not, the error of the download is the error of the call.
  The test is made after the failed download.\<close>

lemma download_error_handler:
  assumes "resolve_template e input (merge_options e options) w = (Inr (pn, src, t), w1)"
    and "\<not> offline options"
    and "\<not> (preferOffline options \<and> exists_path (files w1) (tarPath e pn t))"
    and "ensureDir (files w1) (dirname e (tarPath e pn t)) = Inr st1"
    and "download e (tar_url t) (tarPath e pn t) (Some (download_headers (merge_options e options) t))
           (w1\<lparr> files := st1 \<rparr>) = (Inl err, w2)"
  shows "download_step e (merge_options e options) (tarPath e pn t) t w1 =
           (if exists_path (files w2) (tarPath e pn t) then (Inr True, w2) else (Inl err, w2))
       \<and> downloadTemplate e input options w =
           (if exists_path (files w2) (tarPath e pn t)
            then (case place e (merge_options e options) (tarPath e pn t) t w2 of
                    (Inl late, w3) \<Rightarrow> (Inl late, w3)
                  | (Inr d, w3) \<Rightarrow>
                      (Inr \<lparr> template = sanitize_template t, source = src, dir = d \<rparr>, w3))
            else (Inl err, w2))"
proof -
  let ?o = "merge_options e options"
  let ?tp = "tarPath e pn t"
  have step: "download_step e ?o ?tp t w1 =
           (if exists_path (files w2) ?tp then (Inr True, w2) else (Inl err, w2))"
    using assms(4,5) by (simp add: download_step_def)
  have online: "\<not> (offline ?o \<or> (preferOffline ?o \<and> exists_path (files w1) ?tp))"
    using assms(2,3) by (simp add: merge_options_flags)
  have acq: "acquire e ?o ?tp t w1 =
           (if exists_path (files w2) ?tp then (Inr True, w2) else (Inl err, w2))"
    using acquire_online[OF online, of e t] step by (simp add: require_tarball_def)
  show ?thesis
    using step assms(1) acq by (simp add: downloadTemplate_def)
qed

text \<open>With a tarball in the cache and a server that cannot be reached, the call goes on
  with the cached tarball; with an empty cache the error of the download is the error
  of the call.\<close>

lemma download_error_examples:
  "fst (download_step (sample_env unreachable) (merge_options (sample_env unreachable) no_options)
          ''/home/u/.cache/giget/gh/org-repo/main.tar.gz'' org_repo_template cached_world) = Inr True
   \<and> fst (downloadTemplate (sample_env unreachable) ''gh:org/repo'' no_options cached_world)
     = Inr \<lparr> template = sanitize_template org_repo_template, source = ''org/repo'',
             dir = ''/work/org-repo'' \<rparr>
   \<and> fst (downloadTemplate (sample_env unreachable) ''gh:org/repo'' no_options empty_world)
     = Inl (FetchFailed ''https://api.github.com/repos/org/repo/tarball/main''
              ''network is unreachable'')"
  by code_simp

text \<open>
  C3, the behaviour of the code when the cache is empty. The handler cannot tell a
  tarball that was cached before from one that the failing download has itself just
  written: \<^verbatim>\<open>Deno.open\<close> creates the file before the body is piped into it. When there is
  no tarball at the cache path before the download, the download fails and has left a
  file there (the stream of the body broke, closing the piped file raised, or the
  sidecar could not be written), the error of the download is dropped and the call goes
  on to extract what the failed download has written.
\<close>

theorem downloadTemplate_late_failure:
  assumes "resolve_template e input (merge_options e options) w = (Inr (pn, src, t), w1)"
    and "\<not> offline options"
    and "ensureDir (files w1) (dirname e (tarPath e pn t)) = Inr st1"
    and "\<not> exists_path st1 (tarPath e pn t)"
    and "download e (tar_url t) (tarPath e pn t) (Some (download_headers (merge_options e options) t))
           (w1\<lparr> files := st1 \<rparr>) = (Inl err, w2)"
    and "exists_path (files w2) (tarPath e pn t)"
  shows "\<not> exists_path (files w) (tarPath e pn t)
       \<and> download_step e (merge_options e options) (tarPath e pn t) t w1 = (Inr True, w2)
       \<and> downloadTemplate e input options w =
           (case place e (merge_options e options) (tarPath e pn t) t w2 of
              (Inl late, w3) \<Rightarrow> (Inl late, w3)
            | (Inr d, w3) \<Rightarrow>
                (Inr \<lparr> template = sanitize_template t, source = src, dir = d \<rparr>, w3))"
proof -
  let ?tp = "tarPath e pn t"
  have f1: "files w1 = files w" using resolve_template_files[OF assms(1)] .
  have none: "\<not> exists_path (files w1) ?tp"
    using ensureDir_keeps[OF assms(3), of ?tp] assms(4) by blast
  then have pref: "\<not> (preferOffline options \<and> exists_path (files w1) ?tp)" by simp
  show ?thesis
    using download_error_handler[OF assms(1,2) pref assms(3,5)] assms(6) none f1 by simp
qed

theorem downloadTemplate_late_failure_witness:
  "\<not> exists_path (files empty_world) ''/home/u/.cache/giget/gh/org-repo/main.tar.gz''
   \<and> fst (download_step (breaking_env (serving [] ''TA''))
            (merge_options (breaking_env (serving [] ''TA'')) no_options)
            ''/home/u/.cache/giget/gh/org-repo/main.tar.gz'' org_repo_template empty_world)
       = Inr True
   \<and> fst (downloadTemplate (breaking_env (serving [] ''TA'')) ''gh:org/repo'' no_options empty_world)
       = Inl (ExtractFailed ''TAR_BAD_ARCHIVE: Unrecognized archive format'')
   \<and> files (snd (downloadTemplate (breaking_env (serving [] ''TA'')) ''gh:org/repo'' no_options
                   empty_world)) ''/home/u/.cache/giget/gh/org-repo/main.tar.gz''
       = Some (File ''TA'')"
proof -
  let ?e = "breaking_env (serving [] ''TA'')"
  let ?o = "merge_options ?e no_options"
  let ?tp = "tarPath ?e ''gh'' org_repo_template"
  let ?w1 = "snd (resolve_template ?e ''gh:org/repo'' ?o empty_world)"
  let ?st1 = "projr (ensureDir (files ?w1) (dirname ?e ?tp))"
  let ?dl = "download ?e (tar_url org_repo_template) ?tp (Some (download_headers ?o org_repo_template))
               (?w1\<lparr> files := ?st1 \<rparr>)"
  let ?err = "StreamFailed ''connection reset''"
  have "fst (resolve_template ?e ''gh:org/repo'' ?o empty_world)
          = Inr (''gh'', ''org/repo'', org_repo_template)"
    by code_simp
  then have res: "resolve_template ?e ''gh:org/repo'' ?o empty_world
          = (Inr (''gh'', ''org/repo'', org_repo_template), ?w1)"
    by (metis prod.collapse)
  have off: "\<not> offline no_options" by (simp add: no_options_def)
  have "\<not> isl (ensureDir (files ?w1) (dirname ?e ?tp))" by code_simp
  then have ens: "ensureDir (files ?w1) (dirname ?e ?tp) = Inr ?st1" by simp
  have fresh: "\<not> exists_path ?st1 ?tp" by code_simp
  have "fst ?dl = Inl ?err" by code_simp
  then have dl: "?dl = (Inl ?err, snd ?dl)" by (metis prod.collapse)
  have written: "exists_path (files (snd ?dl)) ?tp" by code_simp
  have tp: "?tp = ''/home/u/.cache/giget/gh/org-repo/main.tar.gz''" by code_simp
  have w1: "?w1 = empty_world"
    by (simp add: resolve_template_def provider_and_source_def find_provider_def no_options_def
        merge_options_def breaking_env_def sample_env_def providers_def github_def Let_def
        sourceProtoRe_def is_repo_char_def is_word_def is_digit_def is_upper_def is_lower_def
        parseGitURI_def inputRegex_def)
  have place: "fst (place ?e ?o ?tp org_repo_template (snd ?dl))
                 = Inl (ExtractFailed ''TAR_BAD_ARCHIVE: Unrecognized archive format'')
             \<and> files (snd (place ?e ?o ?tp org_repo_template (snd ?dl))) ?tp = Some (File ''TA'')"
    by code_simp
  have run: "downloadTemplate ?e ''gh:org/repo'' no_options empty_world =
           (case place ?e ?o ?tp org_repo_template (snd ?dl) of
              (Inl late, w3) \<Rightarrow> (Inl late, w3)
            | (Inr d, w3) \<Rightarrow>
                (Inr \<lparr> template = sanitize_template org_repo_template, source = ''org/repo'', dir = d \<rparr>, w3))"
    and step: "download_step ?e ?o ?tp org_repo_template ?w1 = (Inr True, snd ?dl)"
    and before: "\<not> exists_path (files empty_world) ?tp"
    using downloadTemplate_late_failure[OF res off ens fresh dl written] by simp_all
  obtain pr w3 where pl: "place ?e ?o ?tp org_repo_template (snd ?dl) = (pr, w3)"
    by (cases "place ?e ?o ?tp org_repo_template (snd ?dl)")
  have pr: "pr = Inl (ExtractFailed ''TAR_BAD_ARCHIVE: Unrecognized archive format'')"
    and w3: "files w3 ?tp = Some (File ''TA'')"
    using place pl by simp_all
  have "downloadTemplate ?e ''gh:org/repo'' no_options empty_world
          = (Inl (ExtractFailed ''TAR_BAD_ARCHIVE: Unrecognized archive format''), w3)"
    using run pl pr by simp
  then show ?thesis
    using w3 step before w1 tp by simp
qed

text \<open>The same with a whole body and a directory in the place of the sidecar: the body
  is fetched and written, the write of the sidecar fails, and the handler finds the
  tarball.\<close>

lemma late_failure_example:
  "\<not> exists_path (files blocked_sidecar_world) ''/home/u/.cache/giget/gh/org-repo/main.tar.gz''
   \<and> fst (download (sample_env (serving [] ''TAR''))
            ''https://api.github.com/repos/org/repo/tarball/main''
            ''/home/u/.cache/giget/gh/org-repo/main.tar.gz'' None blocked_sidecar_world)
       = Inl (IsADirectory ''/home/u/.cache/giget/gh/org-repo/main.tar.gz.json'')
   \<and> fst (download_step (sample_env (serving [] ''TAR'')) no_options
            ''/home/u/.cache/giget/gh/org-repo/main.tar.gz'' org_repo_template
            blocked_sidecar_world)
       = Inr True
   \<and> fst (downloadTemplate (sample_env (serving [] ''TAR'')) ''gh:org/repo'' no_options
            blocked_sidecar_world)
       = Inr \<lparr> template = sanitize_template org_repo_template, source = ''org/repo'',
               dir = ''/work/org-repo'' \<rparr>"
  by code_simp

lemma sourceProtoRe_prefix:
  assumes "p \<noteq> []" "list_all is_repo_char p"
  shows "sourceProtoRe (p @ '':'' @ rest) = Some (p @ '':'', p)"
proof -
  have a: "takeWhile is_repo_char (p @ CHR '':'' # rest) = p"
    using assms(2) not_repo_char_colon by (simp add: list_all_iff takeWhile_tail)
  have b: "dropWhile is_repo_char (p @ CHR '':'' # rest) = CHR '':'' # rest"
    using assms(2) not_repo_char_colon by (simp add: list_all_iff dropWhile_append3)
  show ?thesis using assms(1) by (simp add: sourceProtoRe_def a b)
qed

lemma downloadTemplate_source_eq:
  assumes "downloadTemplate e input options w = (Inr r, w')"
  shows "source r = snd (provider_and_source input (merge_options e options))"
proof -
  obtain rr w1 where rt: "resolve_template e input (merge_options e options) w = (rr, w1)"
    by (cases "resolve_template e input (merge_options e options) w")
  show ?thesis
  proof (cases rr)
    case (Inl err)
    then show ?thesis using assms rt by (simp add: downloadTemplate_def)
  next
    case (Inr tr)
    obtain pn src t where tr: "tr = (pn, src, t)" by (cases tr)
    have ps: "(pn, src) = provider_and_source input (merge_options e options)"
      using resolve_template_source rt Inr tr by simp
    have "source r = src"
      using assms rt Inr tr
      by (auto simp: downloadTemplate_def split: prod.splits sum.splits)
    then show ?thesis using ps by (metis snd_conv)
  qed
qed

text \<open>
  C9, as amended. For every input that begins with a provider prefix \<^verbatim>\<open>provider:\<close>, the
  \<^verbatim>\<open>source\<close> of the result of a successful call is the rest of the input after the prefix,
  unless the provider is \<^verbatim>\<open>http\<close> or \<^verbatim>\<open>https\<close>: then it is the whole input.
\<close>

theorem downloadTemplate_source:
  assumes "downloadTemplate e input options w = (Inr r, w')"
    and "input = p @ '':'' @ rest" "p \<noteq> []" "list_all is_repo_char p"
  shows "source r = (if p = ''http'' \<or> p = ''https'' then input else rest)"
  using downloadTemplate_source_eq[OF assms(1)] sourceProtoRe_prefix[OF assms(3,4), of rest] assms(2)
  by (simp add: provider_and_source_def)

theorem downloadTemplate_source_witness:
  "\<exists>r w'. downloadTemplate (sample_env unreachable) ''gh:org/repo'' no_options cached_world = (Inr r, w')
      \<and> source r = ''org/repo''"
proof -
  let ?run = "downloadTemplate (sample_env unreachable) ''gh:org/repo'' no_options cached_world"
  let ?r = "\<lparr> template = sanitize_template org_repo_template, source = ''org/repo'',
             dir = ''/work/org-repo'' \<rparr>"
  have "fst ?run = Inr ?r" by code_simp
  then have run: "?run = (Inr ?r, snd ?run)" by (metis prod.collapse)
  have p: "list_all is_repo_char ''gh''" by code_simp
  have "source ?r = ''org/repo''"
    using downloadTemplate_source[OF run, of "''gh''" "''org/repo''"] p by simp
  then show ?thesis using run by blast
qed

text \<open>The claim as first stated has no exception: for an \<^verbatim>\<open>https:\<close> input the source would
  be what follows the colon. The code keeps the whole URL.\<close>

theorem downloadTemplate_source_counterexample:
  "fst (downloadTemplate (sample_env (serving [] ''TAR'')) ''https://example.com/t.tar.gz''
          no_options empty_world)
     = Inr \<lparr> template =
               \<lparr> name = Some ''t-tar-gz-https---'', tar = Some ''https://example.com/t.tar.gz'',
                 version = Some [], tsubdir = Some [], url = None, defaultDir = Some ''t-tar-gz'',
                 headers = Some [(''Authorization'', None)] \<rparr>,
             source = ''https://example.com/t.tar.gz'',
             dir = ''/work/t-tar-gz'' \<rparr>
   \<and> ''https://example.com/t.tar.gz'' \<noteq> ''//example.com/t.tar.gz''"
  by code_simp

end
